theory Spec2Isabelle
  imports Complex_Main
begin

section \<open>Quantasaurus Rex: the analysis orchestration core\<close>

text \<open>
  A shallow embedding of the analysis core of the repository: the result models
  (\<^verbatim>\<open>src/models/analysis.py\<close>, \<^verbatim>\<open>src/models/portfolio.py\<close>), the retry decorator
  (\<^verbatim>\<open>src/utils/retry.py\<close>), the indicator calculator (\<^verbatim>\<open>src/utils/data_processing.py\<close>)
  and the agent (\<^verbatim>\<open>src/services/react_agent.py\<close>).

  Conventions of the embedding.
  \<^item> Python floats are real numbers: the rounding error of binary floating point is
    outside the model. Python's unbounded integers are \<open>int\<close> or, for lengths and range
    indices, \<open>nat\<close>.
  \<^item> An exception is a value of type \<open>exn\<close>; a function that may raise returns
    \<open>exn + 'a\<close> with \<open>Inl\<close> for the raised exception, and every \<^verbatim>\<open>try/except\<close> of the
    source is a case distinction on that sum.
  \<^item> Mutable state (the agent's cache, the external services) is passed explicitly and
    returned updated.
  \<^item> Strings are lists of characters; the text functions model ASCII text.
\<close>

subsection \<open>Exceptions\<close>

text \<open>
  The exceptions the source distinguishes. The first five are those of the \<^verbatim>\<open>openai\<close>
  package: \<^verbatim>\<open>RateLimitError\<close> (a status error, code 429), \<^verbatim>\<open>APIConnectionError\<close>,
  \<^verbatim>\<open>APITimeoutError\<close> (a subclass of \<^verbatim>\<open>APIConnectionError\<close>), any other status error
  with its \<^verbatim>\<open>status_code\<close>, and a plain \<^verbatim>\<open>APIError\<close>. \<open>OtherException\<close> is any other
  exception, together with its \<^verbatim>\<open>status_code\<close> attribute when it has one.
\<close>

datatype exn =
    RateLimitError
  | APIConnectionError
  | APITimeoutError
  | APIStatusError int
  | APIError
  | ValidationError
  | ValueError
  | StatisticsError
  | ZeroDivisionError
  | IndexError
  | OtherException "int option"
  | AllRetriesFailed

subsection \<open>Result models (\<^verbatim>\<open>models/analysis.py\<close>)\<close>

datatype Recommendation = BUY | SELL | HOLD

datatype TrendDirection = BULLISH | BEARISH | TREND_NEUTRAL

datatype RiskLevel = LOW | MEDIUM | HIGH | VERY_HIGH

datatype SentimentLevel = VERY_POSITIVE | POSITIVE | NEUTRAL | NEGATIVE | VERY_NEGATIVE

record TechnicalIndicators =
  sma_20 :: "real option"
  sma_50 :: "real option"
  sma_200 :: "real option"
  rsi :: "real option"
  macd :: "real option"
  macd_signal :: "real option"
  macd_histogram :: "real option"
  bb_upper :: "real option"
  bb_middle :: "real option"
  bb_lower :: "real option"
  volume_avg :: "real option"
  volume_ratio :: "real option"
  volatility :: "real option"

record TechnicalAnalysis =
  indicators :: TechnicalIndicators
  trend :: TrendDirection
  support_level :: "real option"
  resistance_level :: "real option"
  chart_patterns :: "string list"
  buy_signals :: "string list"
  sell_signals :: "string list"
  technical_score :: real
  ta_confidence :: real
  ta_summary :: string

text \<open>
  The news and event items of the sentiment and event analyses carry timestamps; they are
  kept as titles only, and the timestamp fields (\<^verbatim>\<open>earnings_date\<close>, \<^verbatim>\<open>dividend_date\<close>,
  \<^verbatim>\<open>analysis_date\<close>) are left out: no operation modelled here reads them.
\<close>

record SentimentAnalysis =
  sentiment_level :: SentimentLevel
  sentiment_score :: real
  news_sentiment :: SentimentLevel
  news_count :: int
  recent_news :: "string list"
  social_sentiment :: "SentimentLevel option"
  social_mentions :: "int option"
  sa_confidence :: real
  sa_summary :: string

record EventAnalysis =
  upcoming_events :: "string list"
  positive_catalysts :: "string list"
  negative_catalysts :: "string list"
  overall_impact :: string
  ea_confidence :: real

record RiskMetrics =
  price_volatility :: "real option"
  beta :: "real option"
  max_drawdown :: "real option"
  current_drawdown :: "real option"
  avg_volume :: "real option"
  bid_ask_spread :: "real option"
  market_correlation :: "real option"
  sector_correlation :: "real option"

record RiskAssessment =
  risk_level :: RiskLevel
  risk_score :: real
  metrics :: RiskMetrics
  risk_factors :: "string list"
  mitigation_strategies :: "string list"
  portfolio_weight :: "real option"
  diversification_impact :: "string option"
  ra_summary :: string
  ra_confidence :: real

record AssetAnalysis =
  symbol :: string
  asset_type :: string
  current_price :: real
  market_value :: real
  technical_analysis :: TechnicalAnalysis
  sentiment_analysis :: SentimentAnalysis
  event_analysis :: EventAnalysis
  risk_assessment :: RiskAssessment
  recommendation :: Recommendation
  target_price :: "real option"
  stop_loss :: "real option"
  time_horizon :: "string option"
  overall_score :: real
  confidence :: real
  reasoning :: string
  key_factors :: "string list"

text \<open>
  The field constraints pydantic checks when an \<^verbatim>\<open>AssetAnalysis\<close> is constructed
  (\<^verbatim>\<open>gt=0\<close> on the price and the market value, \<^verbatim>\<open>ge=0, le=1\<close> on the score and the
  confidence). Sub-analyses passed in are model instances already and are not validated
  again.
\<close>

definition validate_AssetAnalysis :: "AssetAnalysis \<Rightarrow> exn + AssetAnalysis" where
  "validate_AssetAnalysis a =
     (if 0 < current_price a \<and> 0 < market_value a
         \<and> 0 \<le> overall_score a \<and> overall_score a \<le> 1
         \<and> 0 \<le> confidence a \<and> confidence a \<le> 1
      then Inr a else Inl ValidationError)"

text \<open>\<^verbatim>\<open>AssetAnalysis.create_analysis\<close>, called without extra keyword arguments.\<close>

definition create_analysis ::
  "string \<Rightarrow> string \<Rightarrow> real \<Rightarrow> real \<Rightarrow> TechnicalAnalysis \<Rightarrow> SentimentAnalysis
     \<Rightarrow> EventAnalysis \<Rightarrow> RiskAssessment \<Rightarrow> Recommendation \<Rightarrow> string \<Rightarrow> exn + AssetAnalysis" where
  "create_analysis smb atype price mvalue technical sentiment event risk rcm reason =
     (let tech_score = technical_score technical;
          sent_score = (sentiment_score sentiment + 1) / 2;
          inv_risk_score = 1 - risk_score risk;
          score = tech_score * 0.4 + sent_score * 0.3 + inv_risk_score * 0.3;
          score = max 0 (min 1 score);
          confidences = [ta_confidence technical, sa_confidence sentiment, ra_confidence risk];
          overall_confidence = sum_list confidences / real (length confidences)
      in validate_AssetAnalysis
           \<lparr> symbol = smb, asset_type = atype, current_price = price, market_value = mvalue,
             technical_analysis = technical, sentiment_analysis = sentiment,
             event_analysis = event, risk_assessment = risk,
             recommendation = rcm, target_price = None, stop_loss = None,
             time_horizon = None, overall_score = score, confidence = overall_confidence,
             reasoning = reason, key_factors = [] \<rparr>)"

subsection \<open>Retry with exponential backoff (\<^verbatim>\<open>utils/retry.py\<close>)\<close>

record RetryConfig =
  max_retries :: int
  base_delay :: real
  max_delay :: real
  exponential_base :: real
  jitter :: bool
  backoff_multiplier :: real

text \<open>\<^verbatim>\<open>RetryConfig()\<close> with the default arguments of its constructor.\<close>

definition default_RetryConfig :: RetryConfig where
  "default_RetryConfig =
     \<lparr> max_retries = 3, base_delay = 1, max_delay = 60, exponential_base = 2,
       jitter = True, backoff_multiplier = 2 \<rparr>"

text \<open>
  \<^verbatim>\<open>random.uniform(a, b)\<close> is \<^verbatim>\<open>a + (b - a) * random()\<close>; the draw \<^verbatim>\<open>random()\<close>, a
  number in \<open>[0, 1)\<close>, is a parameter of the model.
\<close>

definition uniform :: "real \<Rightarrow> real \<Rightarrow> real \<Rightarrow> real" where
  "uniform a b draw = a + (b - a) * draw"

text \<open>
  \<^verbatim>\<open>calculate_backoff_delay(attempt, config)\<close>. The attempt number is a range index plus
  one in every call of the source, hence a natural number.
\<close>

definition calculate_backoff_delay :: "nat \<Rightarrow> RetryConfig \<Rightarrow> real \<Rightarrow> real" where
  "calculate_backoff_delay attempt config draw =
     (if attempt = 0 then 0
      else
        let delay = base_delay config * exponential_base config ^ (attempt - 1);
            delay = delay * backoff_multiplier config;
            delay = min delay (max_delay config);
            delay = (if jitter config
                     then (let jitter_range = delay * 0.1
                           in delay + uniform (- jitter_range) jitter_range draw)
                     else delay)
        in max 0 delay)"

text \<open>Exception classes, as far as \<^verbatim>\<open>isinstance\<close> and \<^verbatim>\<open>except\<close> clauses name them.\<close>

datatype exn_class =
  RateLimitError_class | APIConnectionError_class | APITimeoutError_class | APIError_class

fun isinstance :: "exn \<Rightarrow> exn_class \<Rightarrow> bool" where
  "isinstance e RateLimitError_class = (e = RateLimitError)"
| "isinstance e APIConnectionError_class = (e = APIConnectionError \<or> e = APITimeoutError)"
| "isinstance e APITimeoutError_class = (e = APITimeoutError)"
| "isinstance e APIError_class =
     (case e of RateLimitError \<Rightarrow> True | APIConnectionError \<Rightarrow> True | APITimeoutError \<Rightarrow> True
              | APIStatusError c \<Rightarrow> True | APIError \<Rightarrow> True | _ \<Rightarrow> False)"

text \<open>The \<^verbatim>\<open>status_code\<close> attribute of an exception, \<open>None\<close> when it has none.\<close>

fun status_code :: "exn \<Rightarrow> int option" where
  "status_code RateLimitError = Some 429"
| "status_code (APIStatusError c) = Some c"
| "status_code (OtherException sc) = sc"
| "status_code _ = None"

definition should_retry :: "exn \<Rightarrow> int \<Rightarrow> int \<Rightarrow> bool" where
  "should_retry exception attempt maxretries =
     (if attempt \<ge> maxretries then False
      else if isinstance exception RateLimitError_class then True
      else if isinstance exception APIConnectionError_class then True
      else if isinstance exception APITimeoutError_class then True
      else if (case status_code exception of Some c \<Rightarrow> c \<ge> 500 | None \<Rightarrow> False) then True
      else False)"

text \<open>
  The wrapped operation may behave differently at every call; it is a function from a
  state to an outcome and the next state. The loop of \<^verbatim>\<open>async_wrapper\<close> (and of
  \<^verbatim>\<open>sync_wrapper\<close>, which is the same text) runs over the attempts of
  \<^verbatim>\<open>range(config.max_retries + 1)\<close>. The wrapper returns the outcome, the state the
  operation is left in, and the delays it slept, in order. \<open>draws\<close> gives the random
  draw used for the jitter of each attempt.
\<close>

type_synonym ('s, 'a) operation = "'s \<Rightarrow> (exn + 'a) \<times> 's"

fun retry_loop ::
  "RetryConfig \<Rightarrow> exn_class list \<Rightarrow> (nat \<Rightarrow> real) \<Rightarrow> ('s, 'a) operation
     \<Rightarrow> nat list \<Rightarrow> exn option \<Rightarrow> 's \<Rightarrow> real list \<Rightarrow> (exn + 'a) \<times> 's \<times> real list" where
  "retry_loop config exceptions draws func [] last_exception s slept =
     (case last_exception of
        Some e \<Rightarrow> (Inl e, s, slept)
      | None \<Rightarrow> (Inl AllRetriesFailed, s, slept))"
| "retry_loop config exceptions draws func (attempt # rest) last_exception s slept =
     (case func s of
        (Inr v, s') \<Rightarrow> (Inr v, s', slept)
      | (Inl e, s') \<Rightarrow>
          if list_ex (isinstance e) exceptions then
            if \<not> should_retry e (int attempt) (max_retries config) then (Inl e, s', slept)
            else
              let delay = calculate_backoff_delay (attempt + 1) config (draws attempt)
              in retry_loop config exceptions draws func rest (Some e) s'
                   (if delay > 0 then slept @ [delay] else slept)
          else (Inl e, s', slept))"

definition async_wrapper ::
  "RetryConfig \<Rightarrow> exn_class list \<Rightarrow> (nat \<Rightarrow> real) \<Rightarrow> ('s, 'a) operation
     \<Rightarrow> 's \<Rightarrow> (exn + 'a) \<times> 's \<times> real list" where
  "async_wrapper config exceptions draws func s =
     retry_loop config exceptions draws func [0 ..< nat (max_retries config + 1)] None s []"

text \<open>The default \<^verbatim>\<open>exceptions\<close> argument of \<^verbatim>\<open>retry_with_backoff\<close>.\<close>

definition default_exceptions :: "exn_class list" where
  "default_exceptions = [RateLimitError_class, APIConnectionError_class, APITimeoutError_class]"



text \<open>
  An operation that follows a script: its state counts the calls made so far, and the
  \<open>k\<close>-th call (from 0) ends as \<open>script k\<close> says.
\<close>

definition scripted :: "(nat \<Rightarrow> exn + 'a) \<Rightarrow> (nat, 'a) operation" where
  "scripted script k = (script k, Suc k)"

text \<open>Random draws that are all 0, and four scripts of outcomes.\<close>

definition zero_draws :: "nat \<Rightarrow> real" where
  "zero_draws k = 0"

definition fails_three_times :: "nat \<Rightarrow> exn + string" where
  "fails_three_times k = (if k < 3 then Inl RateLimitError else Inr ''ok'')"

definition always_rate_limited :: "nat \<Rightarrow> exn + string" where
  "always_rate_limited k = Inl RateLimitError"

definition server_error_once :: "nat \<Rightarrow> exn + string" where
  "server_error_once k = (if k = 0 then Inl (APIStatusError 503) else Inr ''ok'')"

definition timeout_once :: "nat \<Rightarrow> exn + string" where
  "timeout_once k = (if k = 0 then Inl APITimeoutError else Inr ''ok'')"

text \<open>
  The classification of the specification: rate-limit, connection and timeout errors, and
  any error exposing a status code of 500 or more.
\<close>

definition retryable_error :: "exn \<Rightarrow> bool" where
  "retryable_error e =
     (isinstance e RateLimitError_class \<or> isinstance e APIConnectionError_class
      \<or> isinstance e APITimeoutError_class
      \<or> (\<exists>c. status_code e = Some c \<and> 500 \<le> c))"

text \<open>Three configurations the constructor of \<^verbatim>\<open>RetryConfig\<close> accepts.\<close>

definition decaying_config :: RetryConfig where
  "decaying_config =
     \<lparr> max_retries = 3, base_delay = 1, max_delay = 60, exponential_base = 1/2,
       jitter = False, backoff_multiplier = 2 \<rparr>"

definition damped_config :: RetryConfig where
  "damped_config =
     \<lparr> max_retries = 3, base_delay = 1, max_delay = 60, exponential_base = 2,
       jitter = False, backoff_multiplier = 1/2 \<rparr>"

definition negative_config :: RetryConfig where
  "negative_config =
     \<lparr> max_retries = 3, base_delay = - 1, max_delay = 60, exponential_base = 2,
       jitter = False, backoff_multiplier = 2 \<rparr>"

subsection \<open>Indicator calculator (\<^verbatim>\<open>utils/data_processing.py\<close>)\<close>

text \<open>The slice \<^verbatim>\<open>xs[-n:]\<close> for \<open>n \<ge> 0\<close>, and \<^verbatim>\<open>min\<close>, \<^verbatim>\<open>max\<close> of a non-empty list.\<close>

definition last_n :: "nat \<Rightarrow> 'a list \<Rightarrow> 'a list" where
  "last_n n xs = (if n = 0 then xs else drop (length xs - n) xs)"

definition py_min :: "real list \<Rightarrow> exn + real" where
  "py_min xs = (case xs of [] \<Rightarrow> Inl ValueError | x # rest \<Rightarrow> Inr (foldl min x rest))"

definition py_max :: "real list \<Rightarrow> exn + real" where
  "py_max xs = (case xs of [] \<Rightarrow> Inl ValueError | x # rest \<Rightarrow> Inr (foldl max x rest))"

text \<open>
  \<^verbatim>\<open>statistics.mean\<close> and \<^verbatim>\<open>statistics.variance\<close> (the sample variance, with divisor
  \<open>n - 1\<close>) of the standard library; both raise \<^verbatim>\<open>StatisticsError\<close> on too few data.
\<close>

definition statistics_mean :: "real list \<Rightarrow> exn + real" where
  "statistics_mean xs =
     (if xs = [] then Inl StatisticsError else Inr (sum_list xs / real (length xs)))"

definition statistics_variance :: "real list \<Rightarrow> exn + real" where
  "statistics_variance xs =
     (if length xs < 2 then Inl StatisticsError
      else let xbar = sum_list xs / real (length xs)
           in Inr (sum_list (map (\<lambda>x. (x - xbar)\<^sup>2) xs) / real (length xs - 1)))"

text \<open>
  \<^verbatim>\<open>round(x, ndigits)\<close>: the nearest multiple of \<open>10 ^ (- ndigits)\<close>, a tie going to the
  even one.
\<close>

definition round_half_even :: "real \<Rightarrow> int" where
  "round_half_even x =
     (let f = \<lfloor>x\<rfloor>; d = x - of_int f
      in if d < 1/2 then f else if d > 1/2 then f + 1 else if even f then f else f + 1)"

definition py_round :: "real \<Rightarrow> nat \<Rightarrow> real" where
  "py_round x ndigits = of_int (round_half_even (x * 10 ^ ndigits)) / 10 ^ ndigits"

definition price_changes :: "real list \<Rightarrow> real list" where
  "price_changes prices = map (\<lambda>i. prices ! i - prices ! (i - 1)) [1 ..< length prices]"

definition gains_of :: "real list \<Rightarrow> real list" where
  "gains_of changes = map (\<lambda>change. if change > 0 then change else 0) changes"

definition losses_of :: "real list \<Rightarrow> real list" where
  "losses_of changes = map (\<lambda>change. if change < 0 then - change else 0) changes"

text \<open>\<^verbatim>\<open>_calculate_rsi(prices, period)\<close>; any exception gives the neutral 50.\<close>

definition calculate_rsi :: "real list \<Rightarrow> nat \<Rightarrow> real" where
  "calculate_rsi prices period =
     (if length prices < period + 1 then 50
      else
        let changes = price_changes prices;
            gains = gains_of changes;
            losses = losses_of changes
        in case statistics_mean (last_n period gains) of
             Inl _ \<Rightarrow> 50
           | Inr avg_gain \<Rightarrow>
               (case statistics_mean (last_n period losses) of
                  Inl _ \<Rightarrow> 50
                | Inr avg_loss \<Rightarrow>
                    if avg_loss = 0 then 100
                    else let rs = avg_gain / avg_loss;
                             rsi_value = 100 - (100 / (1 + rs))
                         in py_round rsi_value 2))"

text \<open>\<^verbatim>\<open>_calculate_ema(prices, period)\<close>; on an exception it returns the mean of all prices,
  which raises again when there is none.\<close>

definition calculate_ema :: "real list \<Rightarrow> nat \<Rightarrow> exn + real" where
  "calculate_ema prices period =
     (if length prices < period then statistics_mean prices
      else case statistics_mean (take period prices) of
             Inl _ \<Rightarrow> statistics_mean prices
           | Inr sma \<Rightarrow>
               let multiplier = 2 / (real period + 1)
               in Inr (foldl (\<lambda>ema price. (price * multiplier) + (ema * (1 - multiplier)))
                        sma (drop period prices)))"

text \<open>Dictionaries of indicators are maps from the key to the value.\<close>

definition calculate_macd :: "real list \<Rightarrow> (string \<rightharpoonup> real)" where
  "calculate_macd prices =
     (if length prices < 26 then Map.empty
      else case calculate_ema prices 12 of
             Inl _ \<Rightarrow> Map.empty
           | Inr ema_12 \<Rightarrow>
               (case calculate_ema prices 26 of
                  Inl _ \<Rightarrow> Map.empty
                | Inr ema_26 \<Rightarrow>
                    let macd_line = ema_12 - ema_26;
                        signal = macd_line;
                        histogram = macd_line - signal
                    in [''macd'' \<mapsto> py_round macd_line 4,
                        ''macd_signal'' \<mapsto> py_round signal 4,
                        ''macd_histogram'' \<mapsto> py_round histogram 4]))"

text \<open>\<^verbatim>\<open>_calculate_bollinger_bands(prices, period, std_dev)\<close>; \<^verbatim>\<open>variance ** 0.5\<close> is the
  square root.\<close>

definition calculate_bollinger_bands :: "real list \<Rightarrow> nat \<Rightarrow> real \<Rightarrow> (string \<rightharpoonup> real)" where
  "calculate_bollinger_bands prices period std_dev =
     (if length prices < period then Map.empty
      else case statistics_mean (last_n period prices) of
             Inl _ \<Rightarrow> Map.empty
           | Inr middle \<Rightarrow>
               (case statistics_variance (last_n period prices) of
                  Inl _ \<Rightarrow> Map.empty
                | Inr variance \<Rightarrow>
                    let std = sqrt variance;
                        upper = middle + (std * std_dev);
                        lower = middle - (std * std_dev)
                    in [''bb_upper'' \<mapsto> py_round upper 2,
                        ''bb_middle'' \<mapsto> py_round middle 2,
                        ''bb_lower'' \<mapsto> py_round lower 2]))"

text \<open>\<^verbatim>\<open>_calculate_volatility(prices)\<close>; a zero price raises \<^verbatim>\<open>ZeroDivisionError\<close> in the
  list of returns, and the handler returns 0.\<close>

definition calculate_volatility :: "real list \<Rightarrow> real" where
  "calculate_volatility prices =
     (if length prices < 2 then 0
      else if list_ex (\<lambda>i. prices ! (i - 1) = 0) [1 ..< length prices] then 0
      else
        let returns = map (\<lambda>i. (prices ! i - prices ! (i - 1)) / prices ! (i - 1))
                        [1 ..< length prices]
        in if length returns < 2 then 0
           else case statistics_variance returns of
                  Inl _ \<Rightarrow> 0
                | Inr v \<Rightarrow> py_round (sqrt v) 6)"

text \<open>\<^verbatim>\<open>_calculate_support_resistance(closes, highs, lows)\<close>; its handler evaluates
  \<^verbatim>\<open>min(closes), max(closes)\<close>, which raises again on an empty list.\<close>

definition min_max :: "real list \<Rightarrow> exn + (real \<times> real)" where
  "min_max xs =
     (case py_min xs of
        Inl e \<Rightarrow> Inl e
      | Inr lo \<Rightarrow> (case py_max xs of Inl e \<Rightarrow> Inl e | Inr hi \<Rightarrow> Inr (lo, hi)))"

definition calculate_support_resistance ::
  "real list \<Rightarrow> real list \<Rightarrow> real list \<Rightarrow> exn + (real \<times> real)" where
  "calculate_support_resistance closes highs lows =
     (if length closes < 20 then min_max closes
      else
        let recent_highs = (if length highs \<ge> 20 then last_n 20 highs else last_n 20 closes);
            recent_lows = (if length lows \<ge> 20 then last_n 20 lows else last_n 20 closes)
        in case py_min recent_lows of
             Inl _ \<Rightarrow> min_max closes
           | Inr support \<Rightarrow>
               (case py_max recent_highs of
                  Inl _ \<Rightarrow> min_max closes
                | Inr resistance \<Rightarrow> Inr (py_round support 2, py_round resistance 2)))"

text \<open>
  One item of \<^verbatim>\<open>price_data\<close>: a dictionary whose entries \<^verbatim>\<open>close\<close>, \<^verbatim>\<open>high\<close>, \<^verbatim>\<open>low\<close>
  and \<^verbatim>\<open>volume\<close> are numbers or absent. \<^verbatim>\<open>item.get(key)\<close> is truthy for a present,
  non-zero number.
\<close>

record PriceItem =
  close :: "real option"
  high :: "real option"
  low :: "real option"
  volume :: "real option"

definition truthy_values :: "(PriceItem \<Rightarrow> real option) \<Rightarrow> PriceItem list \<Rightarrow> real list" where
  "truthy_values field price_data =
     List.map_filter (\<lambda>item. case field item of
                                Some v \<Rightarrow> if v \<noteq> 0 then Some v else None
                              | None \<Rightarrow> None) price_data"

text \<open>
  The body of \<^verbatim>\<open>calculate_technical_indicators\<close> is one \<^verbatim>\<open>try\<close> block: an exception
  raised by any step abandons the dictionary built so far. \<open>and_then\<close> runs the next step
  unless the previous one raised; each \<open>put_\<close> function is one guarded assignment of the
  source, in the source's order.
\<close>

definition and_then :: "exn + 'a \<Rightarrow> ('a \<Rightarrow> exn + 'b) \<Rightarrow> exn + 'b" where
  "and_then r f = (case r of Inl e \<Rightarrow> Inl e | Inr v \<Rightarrow> f v)"

definition put_mean ::
  "string \<Rightarrow> nat \<Rightarrow> real list \<Rightarrow> (string \<rightharpoonup> real) \<Rightarrow> exn + (string \<rightharpoonup> real)" where
  "put_mean key n xs ind =
     (if length xs \<ge> n
      then and_then (statistics_mean (last_n n xs)) (\<lambda>m. Inr (ind(key \<mapsto> m)))
      else Inr ind)"

definition put_volume :: "real list \<Rightarrow> (string \<rightharpoonup> real) \<Rightarrow> exn + (string \<rightharpoonup> real)" where
  "put_volume volumes ind =
     (if volumes \<noteq> [] \<and> length volumes \<ge> 10
      then and_then (statistics_mean (last_n 10 volumes)) (\<lambda>vavg.
             let ind = ind(''volume_avg'' \<mapsto> vavg)
             in if length volumes \<ge> 2
                then Inr (ind(''volume_ratio'' \<mapsto> (if vavg > 0 then last volumes / vavg else 1)))
                else Inr ind)
      else Inr ind)"

definition put_rsi :: "real list \<Rightarrow> (string \<rightharpoonup> real) \<Rightarrow> (string \<rightharpoonup> real)" where
  "put_rsi closes ind =
     (if length closes \<ge> 14 then ind(''rsi'' \<mapsto> calculate_rsi closes 14) else ind)"

definition put_macd :: "real list \<Rightarrow> (string \<rightharpoonup> real) \<Rightarrow> (string \<rightharpoonup> real)" where
  "put_macd closes ind = (if length closes \<ge> 26 then ind ++ calculate_macd closes else ind)"

definition put_bollinger :: "real list \<Rightarrow> (string \<rightharpoonup> real) \<Rightarrow> (string \<rightharpoonup> real)" where
  "put_bollinger closes ind =
     (if length closes \<ge> 20 then ind ++ calculate_bollinger_bands closes 20 2 else ind)"

definition put_volatility :: "real list \<Rightarrow> (string \<rightharpoonup> real) \<Rightarrow> (string \<rightharpoonup> real)" where
  "put_volatility closes ind =
     (if length closes \<ge> 2 then ind(''volatility'' \<mapsto> calculate_volatility closes) else ind)"

definition put_levels ::
  "real list \<Rightarrow> real list \<Rightarrow> real list \<Rightarrow> (string \<rightharpoonup> real) \<Rightarrow> exn + (string \<rightharpoonup> real)" where
  "put_levels closes highs lows ind =
     (if length closes \<ge> 20
      then and_then (calculate_support_resistance closes highs lows)
             (\<lambda>(support, resistance).
                Inr (ind(''support_level'' \<mapsto> support, ''resistance_level'' \<mapsto> resistance)))
      else Inr ind)"

definition indicators_of ::
  "real list \<Rightarrow> real list \<Rightarrow> real list \<Rightarrow> real list \<Rightarrow> exn + (string \<rightharpoonup> real)" where
  "indicators_of closes highs lows volumes =
     and_then (put_mean ''sma_20'' 20 closes Map.empty) (\<lambda>ind.
     and_then (put_mean ''sma_50'' 50 closes ind) (\<lambda>ind.
     and_then (put_mean ''sma_200'' 200 closes ind) (\<lambda>ind.
     and_then (put_levels closes highs lows
                 (put_volatility closes (put_bollinger closes (put_macd closes
                    (put_rsi closes ind)))))
       (put_volume volumes))))"

definition calculate_technical_indicators :: "PriceItem list \<Rightarrow> (string \<rightharpoonup> real)" where
  "calculate_technical_indicators price_data =
     (if price_data = [] \<or> length price_data < 2 then Map.empty
      else
        let closes = truthy_values close price_data;
            highs = truthy_values high price_data;
            lows = truthy_values low price_data;
            volumes = truthy_values volume price_data
        in if closes = [] then Map.empty
           else case indicators_of closes highs lows volumes of
                  Inl _ \<Rightarrow> Map.empty
                | Inr ind \<Rightarrow> ind)"

text \<open>Modelled from the spec: the population standard deviation (divisor \<open>n\<close>) that the
  specification names for the Bollinger bands; the source has no such function.\<close>

definition population_stdev :: "real list \<Rightarrow> real" where
  "population_stdev xs =
     (let xbar = sum_list xs / real (length xs)
      in sqrt (sum_list (map (\<lambda>x. (x - xbar)\<^sup>2) xs) / real (length xs)))"

text \<open>The sample standard deviation (divisor \<open>n - 1\<close>), in the words of the amended claim.\<close>

definition sample_stdev :: "real list \<Rightarrow> real" where
  "sample_stdev xs =
     (let xbar = sum_list xs / real (length xs)
      in sqrt (sum_list (map (\<lambda>x. (x - xbar)\<^sup>2) xs) / (real (length xs) - 1)))"

text \<open>Twenty closes around 100.\<close>

definition spread_prices :: "real list" where
  "spread_prices = [106, 94, 101, 99, 101, 99] @ replicate 14 100"

text \<open>Fifteen rising prices, and fourteen price items with a close each.\<close>

definition rising_prices :: "real list" where
  "rising_prices = [1, 2, 3, 4, 5, 6, 7, 8, 9, 10, 11, 12, 13, 14, 15]"

definition fourteen_items :: "PriceItem list" where
  "fourteen_items =
     map (\<lambda>c. \<lparr> close = Some c, high = None, low = None, volume = None \<rparr>)
       [1, 2, 3, 4, 5, 6, 7, 8, 9, 10, 11, 12, 13, 14]"

subsection \<open>Portfolio models (\<^verbatim>\<open>models/portfolio.py\<close>)\<close>

datatype AssetType = STOCK | CRYPTO

fun asset_type_value :: "AssetType \<Rightarrow> string" where
  "asset_type_value STOCK = ''stock''"
| "asset_type_value CRYPTO = ''crypto''"

text \<open>
  A position, stock or crypto: the fields of \<^verbatim>\<open>PositionBase\<close>, the asset type, and the
  display name (\<^verbatim>\<open>company_name\<close> or \<^verbatim>\<open>full_name\<close>). The remaining optional fields of
  the two subclasses are read by no operation modelled here.
\<close>

record Position =
  pos_symbol :: string
  quantity :: real
  pos_current_price :: real
  pos_market_value :: real
  average_cost :: "real option"
  unrealized_gain_loss :: "real option"
  pos_asset_type :: AssetType
  display_name :: "string option"

text \<open>The field constraints pydantic enforces when a position is constructed.\<close>

definition valid_position :: "Position \<Rightarrow> bool" where
  "valid_position p = (0 < quantity p \<and> 0 < pos_current_price p \<and> 0 < pos_market_value p)"

record Portfolio =
  stocks :: "Position list"
  crypto :: "Position list"
  total_value :: real

subsection \<open>Text functions\<close>

definition lower_char :: "char \<Rightarrow> char" where
  "lower_char c =
     (case map_of (zip ''ABCDEFGHIJKLMNOPQRSTUVWXYZ'' ''abcdefghijklmnopqrstuvwxyz'') c of
        Some d \<Rightarrow> d | None \<Rightarrow> c)"

definition upper_char :: "char \<Rightarrow> char" where
  "upper_char c =
     (case map_of (zip ''abcdefghijklmnopqrstuvwxyz'' ''ABCDEFGHIJKLMNOPQRSTUVWXYZ'') c of
        Some d \<Rightarrow> d | None \<Rightarrow> c)"

definition str_lower :: "string \<Rightarrow> string" where
  "str_lower s = map lower_char s"

definition str_upper :: "string \<Rightarrow> string" where
  "str_upper s = map upper_char s"

text \<open>The ASCII characters for which \<^verbatim>\<open>str.isspace\<close> holds, which are those \<^verbatim>\<open>\s\<close>
  matches, and the decimal digits \<^verbatim>\<open>\d\<close> matches.\<close>

definition is_space :: "char \<Rightarrow> bool" where
  "is_space c = (c \<in> set [CHR 0x09, CHR 0x0A, CHR 0x0B, CHR 0x0C, CHR 0x0D,
                            CHR 0x1C, CHR 0x1D, CHR 0x1E, CHR 0x1F, CHR 0x20])"

definition is_digit :: "char \<Rightarrow> bool" where
  "is_digit c = (c \<in> set ''0123456789'')"

definition colon_or_space :: "char \<Rightarrow> bool" where
  "colon_or_space c = (c = CHR '':'' \<or> is_space c)"

definition strip :: "string \<Rightarrow> string" where
  "strip s = rev (dropWhile is_space (rev (dropWhile is_space s)))"

text \<open>\<^verbatim>\<open>sub in s\<close> for strings.\<close>

fun contains :: "string \<Rightarrow> string \<Rightarrow> bool" where
  "contains sub [] = (sub = [])"
| "contains sub (c # cs) = (take (length sub) (c # cs) = sub \<or> contains sub cs)"

text \<open>A literal of a pattern compiled with \<^verbatim>\<open>re.IGNORECASE\<close> matches at the start of \<open>s\<close>.\<close>

definition starts_with_ci :: "string \<Rightarrow> string \<Rightarrow> bool" where
  "starts_with_ci lit s = (str_lower (take (length lit) s) = str_lower lit)"

text \<open>
  \<^verbatim>\<open>re.search\<close>: the matcher for a pattern anchored at the start is tried at every
  position from left to right, the end of the text included.
\<close>

fun re_search :: "(string \<Rightarrow> 'a option) \<Rightarrow> string \<Rightarrow> 'a option" where
  "re_search m [] = m []"
| "re_search m (c # cs) = (case m (c # cs) of Some r \<Rightarrow> Some r | None \<Rightarrow> re_search m cs)"

text \<open>The text that follows the leftmost match of a literal.\<close>

definition after_literal :: "string \<Rightarrow> string \<Rightarrow> string option" where
  "after_literal lit s = (if starts_with_ci lit s then Some (drop (length lit) s) else None)"

text \<open>The text before the leftmost match of a literal: the lazy group \<^verbatim>\<open>(.*?)\<close>.\<close>

fun before_literal :: "string \<Rightarrow> string \<Rightarrow> string option" where
  "before_literal lit [] = (if starts_with_ci lit [] then Some [] else None)"
| "before_literal lit (c # cs) =
     (if starts_with_ci lit (c # cs) then Some []
      else map_option ((#) c) (before_literal lit cs))"

text \<open>
  \<^verbatim>\<open>(\d+(?:\.\d+)?)\<close> at the start of \<open>s\<close>: the text of the group and the rest. The
  quantifiers are greedy, and what follows the group in each pattern of the source cannot
  match a digit or a dot, so no shorter alternative is ever taken.
\<close>

definition match_number :: "string \<Rightarrow> (string \<times> string) option" where
  "match_number s =
     (let ip = takeWhile is_digit s; r = dropWhile is_digit s
      in if ip = [] then None
         else (case r of
                 c # r' \<Rightarrow>
                   if c = CHR ''.'' \<and> takeWhile is_digit r' \<noteq> []
                   then Some (ip @ [c] @ takeWhile is_digit r', dropWhile is_digit r')
                   else Some (ip, r)
               | [] \<Rightarrow> Some (ip, r)))"

text \<open>\<^verbatim>\<open>float(text)\<close> for a text of digits with an optional fraction.\<close>

definition digit_value :: "char \<Rightarrow> nat" where
  "digit_value c = (case map_of (zip ''0123456789'' [0, 1, 2, 3, 4, 5, 6, 7, 8, 9]) c of
                      Some d \<Rightarrow> d | None \<Rightarrow> 0)"

definition decimal_value :: "string \<Rightarrow> nat" where
  "decimal_value ds = foldl (\<lambda>acc c. 10 * acc + digit_value c) 0 ds"

definition float_of :: "string \<Rightarrow> real" where
  "float_of s =
     (let ip = takeWhile is_digit s; fp = drop 1 (dropWhile is_digit s)
      in real (decimal_value ip) + real (decimal_value fp) / 10 ^ length fp)"

subsection \<open>Default analyses (\<^verbatim>\<open>services/react_agent.py\<close>)\<close>

definition create_default_technical_analysis :: TechnicalAnalysis where
  "create_default_technical_analysis =
     \<lparr> indicators = \<lparr> sma_20 = None, sma_50 = None, sma_200 = None, rsi = None, macd = None,
                      macd_signal = None, macd_histogram = None, bb_upper = None,
                      bb_middle = None, bb_lower = None, volume_avg = None,
                      volume_ratio = None, volatility = None \<rparr>,
       trend = TREND_NEUTRAL, support_level = None, resistance_level = None,
       chart_patterns = [], buy_signals = [], sell_signals = [],
       technical_score = 0.5, ta_confidence = 0.6,
       ta_summary = ''Technical analysis completed with limited data'' \<rparr>"

definition create_default_sentiment_analysis :: SentimentAnalysis where
  "create_default_sentiment_analysis =
     \<lparr> sentiment_level = NEUTRAL, sentiment_score = 0.0, news_sentiment = NEUTRAL,
       news_count = 0, recent_news = [], social_sentiment = None, social_mentions = None,
       sa_confidence = 0.6, sa_summary = ''Sentiment analysis completed with limited data'' \<rparr>"

definition create_default_event_analysis :: EventAnalysis where
  "create_default_event_analysis =
     \<lparr> upcoming_events = [], positive_catalysts = [], negative_catalysts = [],
       overall_impact = ''neutral'', ea_confidence = 0.6 \<rparr>"

definition create_default_risk_assessment :: RiskAssessment where
  "create_default_risk_assessment =
     \<lparr> risk_level = MEDIUM, risk_score = 0.5,
       metrics = \<lparr> price_volatility = None, beta = None, max_drawdown = None,
                   current_drawdown = None, avg_volume = None, bid_ask_spread = None,
                   market_correlation = None, sector_correlation = None \<rparr>,
       risk_factors = [], mitigation_strategies = [], portfolio_weight = None,
       diversification_impact = None,
       ra_summary = ''Risk assessment completed with limited data'', ra_confidence = 0.6 \<rparr>"

text \<open>The analysis both \<^verbatim>\<open>_create_default_analysis\<close> and \<^verbatim>\<open>_parse_agent_response\<close> start
  from, up to the reasoning text.\<close>

definition default_analysis_with :: "Position \<Rightarrow> string \<Rightarrow> exn + AssetAnalysis" where
  "default_analysis_with position reason =
     create_analysis (pos_symbol position) (asset_type_value (pos_asset_type position))
       (pos_current_price position) (pos_market_value position)
       create_default_technical_analysis create_default_sentiment_analysis
       create_default_event_analysis create_default_risk_assessment HOLD reason"

definition create_default_analysis :: "Position \<Rightarrow> exn + AssetAnalysis" where
  "create_default_analysis position =
     default_analysis_with position ''Default analysis due to processing error''"

subsection \<open>Parsing the agent's response (\<^verbatim>\<open>_parse_agent_response\<close>)\<close>

text \<open>
  The structured block: \<^verbatim>\<open>=== INVESTMENT RECOMMENDATION ===(.*?)=== END RECOMMENDATION ===\<close>
  with \<^verbatim>\<open>IGNORECASE | DOTALL\<close>. The match starts at the leftmost start marker (if no end
  marker follows it, none follows a later one), and the group ends before the first end
  marker after it.
\<close>

definition structured_section :: "string \<Rightarrow> string option" where
  "structured_section response_text =
     (case re_search (after_literal ''=== INVESTMENT RECOMMENDATION ==='') response_text of
        None \<Rightarrow> None
      | Some rest \<Rightarrow> before_literal ''=== END RECOMMENDATION ==='' rest)"

text \<open>\<^verbatim>\<open>Final Recommendation:\s*(BUY|SELL|HOLD)\<close>, anchored; the group.\<close>

definition match_final_recommendation :: "string \<Rightarrow> string option" where
  "match_final_recommendation s =
     (case after_literal ''Final Recommendation:'' s of
        None \<Rightarrow> None
      | Some rest \<Rightarrow>
          let r = dropWhile is_space rest
          in if starts_with_ci ''BUY'' r then Some (take 3 r)
             else if starts_with_ci ''SELL'' r then Some (take 4 r)
             else if starts_with_ci ''HOLD'' r then Some (take 4 r)
             else None)"

definition recommendation_of :: "string \<Rightarrow> Recommendation" where
  "recommendation_of rec_value =
     (if rec_value = ''BUY'' then BUY else if rec_value = ''SELL'' then SELL else HOLD)"

text \<open>\<^verbatim>\<open>Confidence Score:\s*(\d+(?:\.\d+)?)%?\<close>, anchored; the group.\<close>

definition match_confidence_score :: "string \<Rightarrow> string option" where
  "match_confidence_score s =
     (case after_literal ''Confidence Score:'' s of
        None \<Rightarrow> None
      | Some rest \<Rightarrow> map_option fst (match_number (dropWhile is_space rest)))"

text \<open>The confidence stored for a matched figure: a value above 1 is a percentage.\<close>

definition parsed_confidence :: "string \<Rightarrow> real" where
  "parsed_confidence matched =
     (let confidence_value = float_of matched;
          confidence_value = (if confidence_value > 1 then confidence_value / 100
                              else confidence_value)
      in min (max confidence_value 0.0) 1.0)"

text \<open>
  \<^verbatim>\<open>Reasoning:\s*(.+)\<close> with \<^verbatim>\<open>DOTALL\<close>, anchored: the group is the rest of the text
  after the white space; when only white space follows, \<^verbatim>\<open>\s*\<close> gives its last
  character back to the group.
\<close>

definition match_reasoning :: "string \<Rightarrow> string option" where
  "match_reasoning s =
     (case after_literal ''Reasoning:'' s of
        None \<Rightarrow> None
      | Some rest \<Rightarrow>
          let w = takeWhile is_space rest; r = dropWhile is_space rest
          in if r \<noteq> [] then Some r else if w \<noteq> [] then Some [last w] else None)"

definition parse_structured :: "string \<Rightarrow> AssetAnalysis \<Rightarrow> AssetAnalysis" where
  "parse_structured recommendation_section analysis =
     (let analysis = (case re_search match_final_recommendation recommendation_section of
                        Some g \<Rightarrow> analysis\<lparr>recommendation := recommendation_of (str_upper g)\<rparr>
                      | None \<Rightarrow> analysis);
          analysis = (case re_search match_confidence_score recommendation_section of
                        Some g \<Rightarrow> analysis\<lparr>confidence := parsed_confidence g\<rparr>
                      | None \<Rightarrow> analysis)
      in case re_search match_reasoning recommendation_section of
           Some g \<Rightarrow> analysis\<lparr>reasoning := take 2500 (strip g)\<rparr>
         | None \<Rightarrow> analysis)"

text \<open>
  The fallback patterns for the confidence, each anchored:
  \<^verbatim>\<open>confidence[:\s]*(\d+(?:\.\d+)?)%?\<close>, \<^verbatim>\<open>confidence[:\s]*([01](?:\.\d+)?)\<close>,
  \<^verbatim>\<open>(\d+(?:\.\d+)?)%?\s*confidence\<close>, \<^verbatim>\<open>confidence\s*score[:\s]*(\d+(?:\.\d+)?)%?\<close> and
  \<^verbatim>\<open>overall\s*confidence[:\s]*(\d+(?:\.\d+)?)%?\<close>.
\<close>

definition match_confidence_1 :: "string \<Rightarrow> string option" where
  "match_confidence_1 s =
     (case after_literal ''confidence'' s of
        None \<Rightarrow> None
      | Some rest \<Rightarrow> map_option fst (match_number (dropWhile colon_or_space rest)))"

definition match_confidence_2 :: "string \<Rightarrow> string option" where
  "match_confidence_2 s =
     (case after_literal ''confidence'' s of
        None \<Rightarrow> None
      | Some rest \<Rightarrow>
          (case dropWhile colon_or_space rest of
             [] \<Rightarrow> None
           | c # r \<Rightarrow>
               if c = CHR ''0'' \<or> c = CHR ''1'' then
                 (case r of
                    d # r' \<Rightarrow>
                      if d = CHR ''.'' \<and> takeWhile is_digit r' \<noteq> []
                      then Some ([c, d] @ takeWhile is_digit r')
                      else Some [c]
                  | [] \<Rightarrow> Some [c])
               else None))"

definition match_confidence_3 :: "string \<Rightarrow> string option" where
  "match_confidence_3 s =
     (case match_number s of
        None \<Rightarrow> None
      | Some (g, rest) \<Rightarrow>
          let rest = (case rest of c # r \<Rightarrow> if c = CHR ''%'' then r else rest | [] \<Rightarrow> rest)
          in if starts_with_ci ''confidence'' (dropWhile is_space rest) then Some g else None)"

definition match_confidence_4 :: "string \<Rightarrow> string option" where
  "match_confidence_4 s =
     (case after_literal ''confidence'' s of
        None \<Rightarrow> None
      | Some rest \<Rightarrow>
          (case after_literal ''score'' (dropWhile is_space rest) of
             None \<Rightarrow> None
           | Some rest \<Rightarrow> map_option fst (match_number (dropWhile colon_or_space rest))))"

definition match_confidence_5 :: "string \<Rightarrow> string option" where
  "match_confidence_5 s =
     (case after_literal ''overall'' s of
        None \<Rightarrow> None
      | Some rest \<Rightarrow>
          (case after_literal ''confidence'' (dropWhile is_space rest) of
             None \<Rightarrow> None
           | Some rest \<Rightarrow> map_option fst (match_number (dropWhile colon_or_space rest))))"

definition confidence_patterns :: "(string \<Rightarrow> string option) list" where
  "confidence_patterns =
     [match_confidence_1, match_confidence_2, match_confidence_3, match_confidence_4,
      match_confidence_5]"

text \<open>
  The fallback patterns for the reasoning, \<^verbatim>\<open>keyword[:\s]*(.+?)(?=\n\n|$)\<close> with
  \<^verbatim>\<open>DOTALL\<close>: the lazy group takes one character and then goes on until an empty line,
  the end of the text or a final newline follows.
\<close>

definition at_break :: "string \<Rightarrow> bool" where
  "at_break s = (take 2 s = [CHR 0x0A, CHR 0x0A] \<or> s = [] \<or> s = [CHR 0x0A])"

fun lazy_group :: "string \<Rightarrow> string" where
  "lazy_group [] = []"
| "lazy_group (c # cs) = c # (if at_break cs then [] else lazy_group cs)"

definition match_reasoning_keyword :: "string \<Rightarrow> string \<Rightarrow> string option" where
  "match_reasoning_keyword keyword s =
     (case after_literal keyword s of
        None \<Rightarrow> None
      | Some rest \<Rightarrow>
          let w = takeWhile colon_or_space rest; r = dropWhile colon_or_space rest
          in if r \<noteq> [] then Some (lazy_group r)
             else if w \<noteq> [] then Some [last w] else None)"

definition reasoning_patterns :: "(string \<Rightarrow> string option) list" where
  "reasoning_patterns =
     [match_reasoning_keyword ''reasoning'', match_reasoning_keyword ''recommendation'',
      match_reasoning_keyword ''analysis'']"

text \<open>The loop \<^verbatim>\<open>for pattern in patterns\<close> that stops at the first pattern found.\<close>

fun first_search :: "(string \<Rightarrow> string option) list \<Rightarrow> string \<Rightarrow> string option" where
  "first_search [] response_text = None"
| "first_search (pattern # patterns) response_text =
     (case re_search pattern response_text of
        Some g \<Rightarrow> Some g
      | None \<Rightarrow> first_search patterns response_text)"

definition parse_fallback :: "string \<Rightarrow> AssetAnalysis \<Rightarrow> AssetAnalysis" where
  "parse_fallback response_text analysis =
     (let analysis = analysis\<lparr>recommendation :=
                        (if contains ''BUY'' (str_upper response_text) then BUY
                         else if contains ''SELL'' (str_upper response_text) then SELL
                         else HOLD)\<rparr>;
          analysis = (case first_search confidence_patterns response_text of
                        Some g \<Rightarrow> analysis\<lparr>confidence := parsed_confidence g\<rparr>
                      | None \<Rightarrow> analysis)
      in case first_search reasoning_patterns response_text of
           Some g \<Rightarrow> analysis\<lparr>reasoning := take 2500 (strip g)\<rparr>
         | None \<Rightarrow> analysis)"

definition extract_fields :: "string \<Rightarrow> AssetAnalysis \<Rightarrow> AssetAnalysis" where
  "extract_fields response_text analysis =
     (case structured_section response_text of
        Some recommendation_section \<Rightarrow> parse_structured recommendation_section analysis
      | None \<Rightarrow> parse_fallback response_text analysis)"

text \<open>\<^verbatim>\<open>If no confidence found, calculate based on recommendation strength\<close>.\<close>

definition apply_default_confidence :: "AssetAnalysis \<Rightarrow> AssetAnalysis" where
  "apply_default_confidence analysis =
     (if confidence analysis = 0
      then (case recommendation analysis of
              BUY \<Rightarrow> analysis\<lparr>confidence := 0.75\<rparr>
            | SELL \<Rightarrow> analysis\<lparr>confidence := 0.70\<rparr>
            | HOLD \<Rightarrow> analysis\<lparr>confidence := 0.60\<rparr>)
      else analysis)"

text \<open>\<^verbatim>\<open>Validate consistency between recommendation and reasoning\<close>.\<close>

definition negative_indicators :: "string list" where
  "negative_indicators =
     [''sell'', ''avoid'', ''negative'', ''decline'', ''drop'', ''risk'', ''concern'']"

definition positive_indicators :: "string list" where
  "positive_indicators =
     [''buy'', ''strong'', ''growth'', ''positive'', ''upside'', ''opportunity'']"

definition indicator_count :: "string list \<Rightarrow> string \<Rightarrow> nat" where
  "indicator_count indicator_list reasoning_text =
     length (filter (\<lambda>indicator. contains indicator reasoning_text) indicator_list)"

definition negative_count :: "AssetAnalysis \<Rightarrow> nat" where
  "negative_count analysis = indicator_count negative_indicators (str_lower (reasoning analysis))"

definition positive_count :: "AssetAnalysis \<Rightarrow> nat" where
  "positive_count analysis = indicator_count positive_indicators (str_lower (reasoning analysis))"

definition validate_consistency :: "AssetAnalysis \<Rightarrow> AssetAnalysis" where
  "validate_consistency analysis =
     (case recommendation analysis of
        BUY \<Rightarrow>
          if negative_count analysis > positive_count analysis
          then analysis\<lparr>confidence := max 0.3 (confidence analysis - 0.2)\<rparr>
          else analysis
      | SELL \<Rightarrow>
          if positive_count analysis > negative_count analysis
          then analysis\<lparr>confidence := max 0.3 (confidence analysis - 0.2)\<rparr>
          else analysis
      | HOLD \<Rightarrow> analysis)"

text \<open>
  \<^verbatim>\<open>_parse_agent_response\<close>, applied to the response text. When the construction of the
  starting analysis raises, the handler returns \<^verbatim>\<open>_create_default_analysis(position)\<close>.
\<close>

definition parse_agent_response :: "string \<Rightarrow> Position \<Rightarrow> exn + AssetAnalysis" where
  "parse_agent_response response_text position =
     (case default_analysis_with position ''Default analysis with limited data'' of
        Inl _ \<Rightarrow> create_default_analysis position
      | Inr analysis \<Rightarrow>
          Inr (validate_consistency (apply_default_confidence
                 (extract_fields response_text analysis))))"

text \<open>A position and two responses that differ in the reasoning only.\<close>

definition sample_position :: Position where
  "sample_position =
     \<lparr> pos_symbol = ''AAPL'', quantity = 10, pos_current_price = 150, pos_market_value = 1500,
       average_cost = None, unrealized_gain_loss = None, pos_asset_type = STOCK,
       display_name = Some ''Apple Inc.'' \<rparr>"

definition doubtful_buy :: string where
  "doubtful_buy = ''BUY confidence: 20% reasoning: avoid''"

definition plain_buy :: string where
  "plain_buy = ''BUY confidence: 20% reasoning: fine''"

text \<open>What a parse ends with: the recommendation, the confidence and the reasoning.\<close>

definition outcome_of :: "exn + AssetAnalysis \<Rightarrow> (Recommendation \<times> real \<times> string) option" where
  "outcome_of r =
     (case r of Inl _ \<Rightarrow> None | Inr a \<Rightarrow> Some (recommendation a, confidence a, reasoning a))"

text \<open>A BUY analysis whose reasoning holds only negative keywords.\<close>

definition sample_analysis :: AssetAnalysis where
  "sample_analysis =
     \<lparr> symbol = ''AAPL'', asset_type = ''stock'', current_price = 150, market_value = 1500,
       technical_analysis = create_default_technical_analysis,
       sentiment_analysis = create_default_sentiment_analysis,
       event_analysis = create_default_event_analysis,
       risk_assessment = create_default_risk_assessment,
       recommendation = BUY, target_price = None, stop_loss = None, time_horizon = None,
       overall_score = 0.5, confidence = 0.8, reasoning = ''Avoid: the risk is high'',
       key_factors = [] \<rparr>"

subsection \<open>Analysing one asset (\<^verbatim>\<open>analyze_asset\<close>)\<close>









subsection \<open>The portfolio run (\<^verbatim>\<open>generate_portfolio_analysis\<close>)\<close>

record SchedulerConfig =
  enable_parallel_processing :: bool
  max_concurrent_analyses :: int
  api_rate_limit_delay :: real
  batch_delay :: real
  stagger_delay :: real

text \<open>
  What the run does besides analysing: the sleeps it asks for and the batches it
  announces (number of the batch, number of batches, size of the batch).
\<close>

datatype SchedulerEvent = Sleep real | ProcessingBatch int int nat

text \<open>
  The analysis of one position is a parameter of the run, as it is for the tests, which
  replace \<^verbatim>\<open>analyze_asset\<close> by a function that may raise.
\<close>

type_synonym 's analyzer = "Position \<Rightarrow> 's \<Rightarrow> (exn + AssetAnalysis) \<times> 's"

type_synonym 's task = "'s \<Rightarrow> SchedulerEvent list \<Rightarrow> (exn + AssetAnalysis) \<times> 's \<times> SchedulerEvent list"

definition all_positions :: "Portfolio \<Rightarrow> Position list" where
  "all_positions portfolio = stocks portfolio @ crypto portfolio"

definition get_position_by_symbol :: "Portfolio \<Rightarrow> string \<Rightarrow> Position option" where
  "get_position_by_symbol portfolio smb =
     find (\<lambda>position. str_upper (pos_symbol position) = str_upper smb) (all_positions portfolio)"

text \<open>
  \<^verbatim>\<open>_analyze_portfolio_correlations\<close>: each analysis whose symbol is held gets its weight
  and its risk level. A total value of zero raises \<^verbatim>\<open>ZeroDivisionError\<close> at the first such
  analysis, and the handler abandons the pass.
\<close>

definition reweigh :: "Portfolio \<Rightarrow> Position \<Rightarrow> AssetAnalysis \<Rightarrow> AssetAnalysis" where
  "reweigh portfolio position analysis =
     (let weight = (pos_market_value position / total_value portfolio) * 100
      in analysis\<lparr>risk_assessment :=
           (risk_assessment analysis)\<lparr>portfolio_weight := Some weight,
              risk_level := (if weight > 20 then HIGH else if weight > 10 then MEDIUM else LOW)\<rparr>\<rparr>)"

fun analyze_portfolio_correlations :: "AssetAnalysis list \<Rightarrow> Portfolio \<Rightarrow> AssetAnalysis list" where
  "analyze_portfolio_correlations [] portfolio = []"
| "analyze_portfolio_correlations (analysis # analyses) portfolio =
     (case get_position_by_symbol portfolio (symbol analysis) of
        None \<Rightarrow> analysis # analyze_portfolio_correlations analyses portfolio
      | Some position \<Rightarrow>
          if total_value portfolio = 0 then analysis # analyses
          else reweigh portfolio position analysis
                 # analyze_portfolio_correlations analyses portfolio)"

text \<open>\<^verbatim>\<open>_analyze_asset_with_delay(position, delay)\<close>.\<close>

definition analyze_asset_with_delay ::
  "'s analyzer \<Rightarrow> SchedulerConfig \<Rightarrow> Position \<Rightarrow> real \<Rightarrow> 's task" where
  "analyze_asset_with_delay analyze config position delay s evs =
     (let evs = (if delay > 0 then evs @ [Sleep delay] else evs);
          evs = evs @ [Sleep (api_rate_limit_delay config)]
      in case analyze position s of
           (Inr analysis, s') \<Rightarrow> (Inr analysis, s', evs)
         | (Inl _, s') \<Rightarrow> (create_default_analysis position, s', evs))"

text \<open>
  \<^verbatim>\<open>asyncio.gather(*tasks, return_exceptions=True)\<close>: the results, exceptions included, in
  the order of the tasks. The tasks are run one after the other in that order, which is
  one of the schedules of the event loop; the order of the results is the same under all
  of them.
\<close>

fun gather :: "'s task list \<Rightarrow> 's \<Rightarrow> SchedulerEvent list
                 \<Rightarrow> (exn + AssetAnalysis) list \<times> 's \<times> SchedulerEvent list" where
  "gather [] s evs = ([], s, evs)"
| "gather (task # tasks) s evs =
     (case task s evs of
        (r, s1, evs1) \<Rightarrow>
          (case gather tasks s1 evs1 of (rs, s2, evs2) \<Rightarrow> (r # rs, s2, evs2)))"

text \<open>The tasks of one batch, each delayed by its index times the stagger delay.\<close>

definition analysis_tasks :: "'s analyzer \<Rightarrow> SchedulerConfig \<Rightarrow> Position list \<Rightarrow> 's task list" where
  "analysis_tasks analyze config positions =
     map (\<lambda>(i, position).
            analyze_asset_with_delay analyze config position (real i * stagger_delay config))
       (enumerate 0 positions)"

text \<open>
  The loop over the results: an exception becomes the default analysis of the position
  at the same index, and an exception raised while that is built leaves the loop. A result
  is an exception or an analysis here, so the third branch of the source, for a result of
  any other type, has no counterpart.
\<close>

definition settle :: "Position \<Rightarrow> exn + AssetAnalysis \<Rightarrow> exn + AssetAnalysis" where
  "settle position result =
     (case result of Inl _ \<Rightarrow> create_default_analysis position | Inr analysis \<Rightarrow> Inr analysis)"

fun process_results ::
  "Position list \<Rightarrow> (exn + AssetAnalysis) list \<Rightarrow> exn + AssetAnalysis list" where
  "process_results positions [] = Inr []"
| "process_results [] (result # results) = Inl IndexError"
| "process_results (position # positions) (result # results) =
     (case settle position result of
        Inl e \<Rightarrow> Inl e
      | Inr analysis \<Rightarrow>
          (case process_results positions results of
             Inl e \<Rightarrow> Inl e
           | Inr analyses \<Rightarrow> Inr (analysis # analyses)))"

text \<open>\<^verbatim>\<open>_sequential_portfolio_analysis\<close>: one loop over the stocks, one over the crypto
  positions; an exception that leaves a loop makes the result empty.\<close>

fun sequential_loop ::
  "'s analyzer \<Rightarrow> Position list \<Rightarrow> 's \<Rightarrow> (exn + AssetAnalysis list) \<times> 's" where
  "sequential_loop analyze [] s = (Inr [], s)"
| "sequential_loop analyze (position # positions) s =
     (case analyze position s of
        (r, s1) \<Rightarrow>
          (case settle position r of
             Inl e \<Rightarrow> (Inl e, s1)
           | Inr analysis \<Rightarrow>
               (case sequential_loop analyze positions s1 of
                  (Inl e, s2) \<Rightarrow> (Inl e, s2)
                | (Inr analyses, s2) \<Rightarrow> (Inr (analysis # analyses), s2))))"

definition sequential_portfolio_analysis ::
  "'s analyzer \<Rightarrow> Portfolio \<Rightarrow> 's \<Rightarrow> SchedulerEvent list
     \<Rightarrow> AssetAnalysis list \<times> 's \<times> SchedulerEvent list" where
  "sequential_portfolio_analysis analyze portfolio s evs =
     (case sequential_loop analyze (stocks portfolio) s of
        (Inl _, s1) \<Rightarrow> ([], s1, evs)
      | (Inr stock_analyses, s1) \<Rightarrow>
          (case sequential_loop analyze (crypto portfolio) s1 of
             (Inl _, s2) \<Rightarrow> ([], s2, evs)
           | (Inr crypto_analyses, s2) \<Rightarrow>
               (analyze_portfolio_correlations (stock_analyses @ crypto_analyses) portfolio,
                s2, evs)))"

text \<open>\<^verbatim>\<open>range(0, n, step)\<close> for a length \<open>n\<close>: a zero step raises \<^verbatim>\<open>ValueError\<close>, a
  negative step gives the empty range.\<close>

definition range_from_0 :: "nat \<Rightarrow> int \<Rightarrow> exn + nat list" where
  "range_from_0 n step =
     (if step = 0 then Inl ValueError
      else if step < 0 then Inr []
      else Inr (map (\<lambda>k. k * nat step) [0 ..< (n + nat step - 1) div nat step]))"

text \<open>The loop of \<^verbatim>\<open>_batch_portfolio_analysis\<close> over the starts of the batches.\<close>

fun batch_loop ::
  "'s analyzer \<Rightarrow> SchedulerConfig \<Rightarrow> Position list \<Rightarrow> nat list \<Rightarrow> 's \<Rightarrow> SchedulerEvent list
     \<Rightarrow> (exn + AssetAnalysis list) \<times> 's \<times> SchedulerEvent list" where
  "batch_loop analyze config positions [] s evs = (Inr [], s, evs)"
| "batch_loop analyze config positions (i # starts) s evs =
     (let m = max_concurrent_analyses config;
          batch_positions = take (nat m) (drop i positions);
          batch_num = (int i div m) + 1;
          total_batches = (int (length positions) + m - 1) div m;
          evs = evs @ [ProcessingBatch batch_num total_batches (length batch_positions)]
      in case gather (analysis_tasks analyze config batch_positions) s evs of
           (batch_results, s1, evs1) \<Rightarrow>
             (case process_results batch_positions batch_results of
                Inl e \<Rightarrow> (Inl e, s1, evs1)
              | Inr analyses \<Rightarrow>
                  let evs2 = (if int i + m < int (length positions)
                              then evs1 @ [Sleep (batch_delay config)] else evs1)
                  in (case batch_loop analyze config positions starts s1 evs2 of
                        (Inl e, s2, evs3) \<Rightarrow> (Inl e, s2, evs3)
                      | (Inr later, s2, evs3) \<Rightarrow> (Inr (analyses @ later), s2, evs3))))"

definition batch_portfolio_analysis ::
  "'s analyzer \<Rightarrow> SchedulerConfig \<Rightarrow> Portfolio \<Rightarrow> Position list \<Rightarrow> 's \<Rightarrow> SchedulerEvent list
     \<Rightarrow> AssetAnalysis list \<times> 's \<times> SchedulerEvent list" where
  "batch_portfolio_analysis analyze config portfolio positions s evs =
     (case range_from_0 (length positions) (max_concurrent_analyses config) of
        Inl _ \<Rightarrow> sequential_portfolio_analysis analyze portfolio s evs
      | Inr starts \<Rightarrow>
          (case batch_loop analyze config positions starts s evs of
             (Inl _, s1, evs1) \<Rightarrow> sequential_portfolio_analysis analyze portfolio s1 evs1
           | (Inr all_analyses, s1, evs1) \<Rightarrow>
               (analyze_portfolio_correlations all_analyses portfolio, s1, evs1)))"

text \<open>\<^verbatim>\<open>generate_portfolio_analysis(portfolio)\<close>: the analyses, the state the analyses leave,
  and the events of the run.\<close>

definition generate_portfolio_analysis ::
  "'s analyzer \<Rightarrow> SchedulerConfig \<Rightarrow> Portfolio \<Rightarrow> 's
     \<Rightarrow> AssetAnalysis list \<times> 's \<times> SchedulerEvent list" where
  "generate_portfolio_analysis analyze config portfolio s =
     (if \<not> enable_parallel_processing config
      then sequential_portfolio_analysis analyze portfolio s []
      else
        let positions = stocks portfolio @ crypto portfolio
        in if positions = [] then ([], s, [])
           else if int (length positions) > max_concurrent_analyses config
           then batch_portfolio_analysis analyze config portfolio positions s []
           else (case gather (analysis_tasks analyze config positions) s [] of
                   (analyses, s1, evs1) \<Rightarrow>
                     (case process_results positions analyses of
                        Inl _ \<Rightarrow> sequential_portfolio_analysis analyze portfolio s1 evs1
                      | Inr processed_analyses \<Rightarrow>
                          (analyze_portfolio_correlations processed_analyses portfolio,
                           s1, evs1))))"

text \<open>
  In the words of the specification: the default analysis of a position, a HOLD, and the
  analyses of the positions one after the other, in the order of the positions, each
  position that raises getting its default analysis.
\<close>

definition default_hold_analysis :: "Position \<Rightarrow> AssetAnalysis" where
  "default_hold_analysis position =
     \<lparr> symbol = pos_symbol position, asset_type = asset_type_value (pos_asset_type position),
       current_price = pos_current_price position, market_value = pos_market_value position,
       technical_analysis = create_default_technical_analysis,
       sentiment_analysis = create_default_sentiment_analysis,
       event_analysis = create_default_event_analysis,
       risk_assessment = create_default_risk_assessment,
       recommendation = HOLD, target_price = None, stop_loss = None, time_horizon = None,
       overall_score = 0.5, confidence = 0.6,
       reasoning = ''Default analysis due to processing error'', key_factors = [] \<rparr>"

fun analyses_in_order :: "'s analyzer \<Rightarrow> Position list \<Rightarrow> 's \<Rightarrow> AssetAnalysis list \<times> 's" where
  "analyses_in_order analyze [] s = ([], s)"
| "analyses_in_order analyze (position # positions) s =
     (case analyze position s of
        (r, s1) \<Rightarrow>
          (case analyses_in_order analyze positions s1 of
             (analyses, s2) \<Rightarrow>
               ((case r of Inr analysis \<Rightarrow> analysis | Inl _ \<Rightarrow> default_hold_analysis position)
                  # analyses, s2)))"

definition is_batch :: "SchedulerEvent \<Rightarrow> bool" where
  "is_batch e = (case e of ProcessingBatch _ _ _ \<Rightarrow> True | Sleep _ \<Rightarrow> False)"





text \<open>
  A portfolio of eight stocks and four crypto positions worth 100 each, a configuration
  with at most five concurrent analyses, and an analysis that raises for the symbol S2,
  returns a BUY for every other position, and counts its calls.
\<close>

definition position_named :: "AssetType \<Rightarrow> string \<Rightarrow> Position" where
  "position_named atype smb =
     \<lparr> pos_symbol = smb, quantity = 1, pos_current_price = 100, pos_market_value = 100,
       average_cost = None, unrealized_gain_loss = None, pos_asset_type = atype,
       display_name = None \<rparr>"

definition twelve_positions :: Portfolio where
  "twelve_positions =
     \<lparr> stocks = map (position_named STOCK)
                  [''S0'', ''S1'', ''S2'', ''S3'', ''S4'', ''S5'', ''S6'', ''S7''],
       crypto = map (position_named CRYPTO) [''C0'', ''C1'', ''C2'', ''C3''],
       total_value = 1200 \<rparr>"

definition five_at_a_time :: SchedulerConfig where
  "five_at_a_time =
     \<lparr> enable_parallel_processing = True, max_concurrent_analyses = 5,
       api_rate_limit_delay = 0.1, batch_delay = 0.2, stagger_delay = 0.05 \<rparr>"

definition flaky_analyzer :: "nat analyzer" where
  "flaky_analyzer position n =
     (if pos_symbol position = ''S2'' then Inl (OtherException None)
      else Inr ((default_hold_analysis position)\<lparr>recommendation := BUY\<rparr>), Suc n)"




section \<open>The aggregated score and confidence\<close>

lemma create_analysis_Inr:
  assumes "create_analysis smb atype price mvalue t s e r rcm reason = Inr a"
  shows "overall_score a
           = max 0 (min 1 (0.4 * technical_score t + 0.3 * ((sentiment_score s + 1) / 2)
                            + 0.3 * (1 - risk_score r)))"
    and "confidence a = (ta_confidence t + sa_confidence s + ra_confidence r) / 3"
    and "symbol a = smb" and "recommendation a = rcm" and "reasoning a = reason"
    and "0 < current_price a" and "0 < market_value a"
  using assms
  by (auto simp: create_analysis_def validate_AssetAnalysis_def Let_def mult.commute
           split: if_splits)

lemma create_analysis_total:
  assumes "0 < price" "0 < mvalue"
    and "0 \<le> ta_confidence t" "ta_confidence t \<le> 1"
    and "0 \<le> sa_confidence s" "sa_confidence s \<le> 1"
    and "0 \<le> ra_confidence r" "ra_confidence r \<le> 1"
  shows "\<exists>a. create_analysis smb atype price mvalue t s e r rcm reason = Inr a"
  using assms by (simp add: create_analysis_def validate_AssetAnalysis_def Let_def)

text \<open>
  Claim C2. For sub-analyses whose confidences satisfy their field constraints (and a
  positive price and market value), \<open>create_analysis\<close> produces an analysis; its overall
  score is \<open>0.4 * technical_score + 0.3 * (sentiment_score + 1) / 2 + 0.3 * (1 - risk_score)\<close>
  clamped to \<open>[0, 1]\<close>; its confidence is the arithmetic mean of the technical, sentiment
  and risk confidences; and replacing the event sub-analysis by any other changes neither.
\<close>

theorem create_analysis_score_and_confidence:
  assumes "0 < price" "0 < mvalue"
    and "0 \<le> ta_confidence t" "ta_confidence t \<le> 1"
    and "0 \<le> sa_confidence s" "sa_confidence s \<le> 1"
    and "0 \<le> ra_confidence r" "ra_confidence r \<le> 1"
  shows "\<exists>a. create_analysis smb atype price mvalue t s e r rcm reason = Inr a
            \<and> overall_score a
                = max 0 (min 1 (0.4 * technical_score t + 0.3 * ((sentiment_score s + 1) / 2)
                                 + 0.3 * (1 - risk_score r)))
            \<and> 0 \<le> overall_score a \<and> overall_score a \<le> 1
            \<and> confidence a = (ta_confidence t + sa_confidence s + ra_confidence r) / 3
            \<and> (\<forall>e'. \<exists>a'. create_analysis smb atype price mvalue t s e' r rcm reason = Inr a'
                       \<and> overall_score a' = overall_score a \<and> confidence a' = confidence a)"
proof -
  from create_analysis_total [OF assms]
  obtain a where a: "create_analysis smb atype price mvalue t s e r rcm reason = Inr a"
    by blast
  have sc: "overall_score a
              = max 0 (min 1 (0.4 * technical_score t + 0.3 * ((sentiment_score s + 1) / 2)
                               + 0.3 * (1 - risk_score r)))"
    and cf: "confidence a = (ta_confidence t + sa_confidence s + ra_confidence r) / 3"
    using create_analysis_Inr [OF a] by blast+
  have rng: "0 \<le> overall_score a \<and> overall_score a \<le> 1"
    unfolding sc by simp
  have ev: "\<exists>a'. create_analysis smb atype price mvalue t s e' r rcm reason = Inr a'
                  \<and> overall_score a' = overall_score a \<and> confidence a' = confidence a" for e'
  proof -
    from create_analysis_total [OF assms]
    obtain a' where a': "create_analysis smb atype price mvalue t s e' r rcm reason = Inr a'"
      by blast
    show ?thesis
      using create_analysis_Inr(1,2) [OF a'] a' sc cf by simp
  qed
  show ?thesis using a sc cf rng ev by blast
qed

theorem create_analysis_score_and_confidence_witness:
  "0 < (150 :: real) \<and> 0 < (1500 :: real)
   \<and> ta_confidence (create_default_technical_analysis\<lparr>technical_score := 0.9,
                        ta_confidence := 0.9\<rparr>) \<le> 1
   \<and> (\<exists>a. create_analysis ''AAPL'' ''stock'' 150 1500
              (create_default_technical_analysis\<lparr>technical_score := 0.9, ta_confidence := 0.9\<rparr>)
              create_default_sentiment_analysis create_default_event_analysis
              create_default_risk_assessment BUY ''Strong technicals'' = Inr a
          \<and> overall_score a = 0.66 \<and> confidence a = 0.7)"
proof -
  have h: "0 < (150 :: real)" "0 < (1500 :: real)"
    "0 \<le> ta_confidence (create_default_technical_analysis\<lparr>technical_score := 0.9,
                           ta_confidence := 0.9\<rparr>)"
    "ta_confidence (create_default_technical_analysis\<lparr>technical_score := 0.9,
                      ta_confidence := 0.9\<rparr>) \<le> 1"
    "0 \<le> sa_confidence create_default_sentiment_analysis"
    "sa_confidence create_default_sentiment_analysis \<le> 1"
    "0 \<le> ra_confidence create_default_risk_assessment"
    "ra_confidence create_default_risk_assessment \<le> 1"
    by (simp_all add: create_default_sentiment_analysis_def create_default_risk_assessment_def)
  from create_analysis_score_and_confidence
         [OF h, of "''AAPL''" "''stock''" create_default_event_analysis BUY
            "''Strong technicals''"]
  obtain a where a: "create_analysis ''AAPL'' ''stock'' 150 1500
              (create_default_technical_analysis\<lparr>technical_score := 0.9, ta_confidence := 0.9\<rparr>)
              create_default_sentiment_analysis create_default_event_analysis
              create_default_risk_assessment BUY ''Strong technicals'' = Inr a"
    and s: "overall_score a
              = max 0 (min 1 (0.4 * technical_score (create_default_technical_analysis
                                   \<lparr>technical_score := 0.9, ta_confidence := 0.9\<rparr>)
                  + 0.3 * ((sentiment_score create_default_sentiment_analysis + 1) / 2)
                  + 0.3 * (1 - risk_score create_default_risk_assessment)))"
    and c: "confidence a
              = (ta_confidence (create_default_technical_analysis
                                   \<lparr>technical_score := 0.9, ta_confidence := 0.9\<rparr>)
                 + sa_confidence create_default_sentiment_analysis
                 + ra_confidence create_default_risk_assessment) / 3"
    by blast
  have "overall_score a = 0.66"
    unfolding s
    by (simp add: create_default_sentiment_analysis_def create_default_risk_assessment_def)
  moreover have "confidence a = 0.7"
    unfolding c
    by (simp add: create_default_sentiment_analysis_def create_default_risk_assessment_def)
  ultimately show ?thesis using a h(4) by auto
qed

section \<open>The retry wrapper\<close>

lemma should_retry_iff:
  "should_retry e attempt m = (attempt < m \<and> retryable_error e)"
  by (auto simp: should_retry_def retryable_error_def split: option.splits)

lemma retry_loop_failures:
  assumes "\<forall>j. k \<le> j \<and> j < k + n \<longrightarrow>
             (\<exists>e. script j = Inl e \<and> list_ex (isinstance e) excs
                  \<and> should_retry e (int j) (max_retries config))"
  shows "\<exists>last' slept'.
           retry_loop config excs draws (scripted script) ([k ..< k + n] @ rest) lastexn k slept
         = retry_loop config excs draws (scripted script) rest last' (k + n) slept'
         \<and> length slept' \<le> length slept + n"
  using assms
proof (induction n arbitrary: k lastexn slept)
  case 0
  then show ?case by auto
next
  case (Suc n)
  from Suc.prems obtain e where e: "script k = Inl e" "list_ex (isinstance e) excs"
      "should_retry e (int k) (max_retries config)"
    by (metis le_refl add_Suc_right less_add_same_cancel1 zero_less_Suc)
  have l: "[k ..< k + Suc n] = k # [Suc k ..< Suc k + n]"
    by (simp add: upt_conv_Cons)
  have prem: "\<forall>j. Suc k \<le> j \<and> j < Suc k + n \<longrightarrow>
             (\<exists>e. script j = Inl e \<and> list_ex (isinstance e) excs
                  \<and> should_retry e (int j) (max_retries config))"
    using Suc.prems by auto
  define slept1 where "slept1 = (let delay = calculate_backoff_delay (k + 1) config (draws k)
                   in if delay > 0 then slept @ [delay] else slept)"
  have len1: "length slept1 \<le> length slept + 1" by (simp add: slept1_def Let_def)
  from Suc.IH [OF prem, of "Some e" slept1]
  obtain last' slept' where
    r: "retry_loop config excs draws (scripted script) ([Suc k ..< Suc k + n] @ rest) (Some e) (Suc k) slept1
         = retry_loop config excs draws (scripted script) rest last' (Suc k + n) slept'"
    and len: "length slept' \<le> length slept1 + n"
    by blast
  have "retry_loop config excs draws (scripted script) ([k ..< k + Suc n] @ rest) lastexn k slept
      = retry_loop config excs draws (scripted script) ([Suc k ..< Suc k + n] @ rest) (Some e) (Suc k) slept1"
    unfolding l using e by (simp add: scripted_def slept1_def Let_def)
  with r len len1 show ?case by (intro exI [of _ last'] exI [of _ slept']) simp
qed

text \<open>
  Claim C4, as the specification states it, fails: with \<open>max_retries = 3\<close>, an operation
  that fails with a rate-limit error on three consecutive attempts is called a fourth
  time, and the wrapper returns the result of that call instead of raising.
\<close>

theorem retry_after_max_retries_failures_counterexample:
  "max_retries default_RetryConfig = 3
   \<and> fails_three_times 0 = Inl RateLimitError \<and> fails_three_times 1 = Inl RateLimitError
   \<and> fails_three_times 2 = Inl RateLimitError
   \<and> fst (async_wrapper default_RetryConfig default_exceptions zero_draws
            (scripted fails_three_times) 0) = Inr ''ok''
   \<and> fst (snd (async_wrapper default_RetryConfig default_exceptions zero_draws
            (scripted fails_three_times) 0)) = 4"
  by (simp add: async_wrapper_def default_RetryConfig_def default_exceptions_def scripted_def
       should_retry_def upt_rec calculate_backoff_delay_def uniform_def zero_draws_def
       fails_three_times_def)

text \<open>
  Claim C4, amended. When the operation fails on \<open>max_retries + 1\<close> consecutive calls (the
  first try and every retry), each of the first \<open>max_retries\<close> failures being an error the
  wrapper retries, the wrapper raises the error of the last call as its result, and the
  operation has been called exactly \<open>max_retries + 1\<close> times; at most \<open>max_retries\<close>
  delays were slept.
\<close>

theorem retry_exhausted_raises_last_error:
  assumes "0 \<le> max_retries config"
    and "\<forall>k < nat (max_retries config).
            \<exists>e. script k = Inl e \<and> list_ex (isinstance e) excs
                 \<and> should_retry e (int k) (max_retries config)"
    and "script (nat (max_retries config)) = Inl e_last"
  shows "\<exists>slept. async_wrapper config excs draws (scripted script) 0
                   = (Inl e_last, Suc (nat (max_retries config)), slept)
                 \<and> length slept \<le> nat (max_retries config)"
proof -
  define M where "M = nat (max_retries config)"
  have l: "[0 ..< nat (max_retries config + 1)] = [0 ..< 0 + M] @ [M]"
    using assms(1) by (simp add: M_def nat_add_distrib)
  have "\<forall>j. 0 \<le> j \<and> j < 0 + M \<longrightarrow>
             (\<exists>e. script j = Inl e \<and> list_ex (isinstance e) excs
                  \<and> should_retry e (int j) (max_retries config))"
    using assms(2) by (simp add: M_def)
  from retry_loop_failures [OF this, of draws "[M]" None "[]"]
  obtain last' slept' where
    r: "retry_loop config excs draws (scripted script) ([0 ..< 0 + M] @ [M]) None 0 []
         = retry_loop config excs draws (scripted script) [M] last' (0 + M) slept'"
    and len: "length slept' \<le> M" by auto
  have nr: "\<not> should_retry e_last (int M) (max_retries config)"
    using assms(1) by (simp add: should_retry_def M_def)
  have "retry_loop config excs draws (scripted script) [M] last' (0 + M) slept'
          = (Inl e_last, Suc M, slept')"
    using assms(3) nr by (simp add: scripted_def M_def [symmetric])
  with r len show ?thesis
    unfolding async_wrapper_def l M_def [symmetric] by auto
qed

theorem retry_exhausted_raises_last_error_witness:
  "0 \<le> max_retries default_RetryConfig
   \<and> (\<exists>slept. async_wrapper default_RetryConfig default_exceptions zero_draws
                  (scripted always_rate_limited) 0
                = (Inl RateLimitError, 4, slept) \<and> length slept \<le> 3)"
  using retry_exhausted_raises_last_error
          [of default_RetryConfig always_rate_limited default_exceptions RateLimitError
              zero_draws]
  by (simp add: default_RetryConfig_def default_exceptions_def should_retry_def
        always_rate_limited_def)

text \<open>
  Claim C5, as the specification states it, fails: under the default exception classes of
  \<^verbatim>\<open>retry_with_backoff\<close> an error exposing status code 503 is raised to
  the caller after a single call, although three retries remain.
\<close>

theorem server_error_not_retried_counterexample:
  "async_wrapper default_RetryConfig default_exceptions zero_draws
     (scripted server_error_once) 0
   = (Inl (APIStatusError 503), 1, [])
   \<and> retryable_error (APIStatusError 503)
   \<and> max_retries default_RetryConfig = 3"
  by (simp add: async_wrapper_def default_RetryConfig_def default_exceptions_def scripted_def
       should_retry_def upt_rec retryable_error_def server_error_once_def)

text \<open>
  Claim C5, amended. When a call of the operation raises \<open>e\<close> at attempt number
  \<open>attempt\<close>, the loop goes on to the next attempt (sleeping the backoff delay of attempt
  \<open>attempt + 1\<close> when it is positive) exactly when \<open>e\<close> is an instance of one of the
  wrapper's exception classes, is a rate-limit, connection or timeout error or exposes a
  status code of 500 or more, and \<open>attempt < max_retries\<close>; in every other case \<open>e\<close> is
  raised to the caller at once, with no further call and no delay.
\<close>

theorem retry_classification:
  assumes "func s = (Inl e, s')"
  shows "retry_loop config excs draws func (attempt # rest) lastexn s slept =
     (if list_ex (isinstance e) excs \<and> retryable_error e \<and> int attempt < max_retries config
      then retry_loop config excs draws func rest (Some e) s'
             (let delay = calculate_backoff_delay (attempt + 1) config (draws attempt)
              in if delay > 0 then slept @ [delay] else slept)
      else (Inl e, s', slept))"
  using assms by (simp add: should_retry_iff Let_def)

theorem retry_classification_witness:
  "scripted timeout_once 0 = (Inl APITimeoutError, 1)
   \<and> retry_loop default_RetryConfig default_exceptions zero_draws
         (scripted timeout_once) [0, 1, 2, 3] None 0 []
       = (Inr ''ok'', 2, [9 / 5])"
  using retry_classification
          [of "scripted timeout_once" 0 APITimeoutError 1 default_RetryConfig
              default_exceptions zero_draws 0 "[1, 2, 3]" None "[]"]
  by (simp add: scripted_def default_RetryConfig_def default_exceptions_def
        retryable_error_def calculate_backoff_delay_def uniform_def zero_draws_def
        timeout_once_def)

section \<open>The backoff delay\<close>

lemma pre_jitter_delay:
  assumes "0 \<le> base_delay c" "0 \<le> max_delay c" "0 \<le> exponential_base c"
    "0 \<le> backoff_multiplier c" "1 \<le> k"
  shows "calculate_backoff_delay k (c\<lparr>jitter := False\<rparr>) d
           = min (max_delay c) (base_delay c * exponential_base c ^ (k - 1) * backoff_multiplier c)"
proof -
  have "0 \<le> base_delay c * exponential_base c ^ (k - 1) * backoff_multiplier c"
    using assms by simp
  then show ?thesis
    using assms by (simp add: calculate_backoff_delay_def Let_def min.commute)
qed

lemma jittered_delay:
  assumes "0 \<le> base_delay c" "0 \<le> max_delay c" "0 \<le> exponential_base c"
    "0 \<le> backoff_multiplier c" "1 \<le> k" "jitter c" "0 \<le> d" "d \<le> 1"
  shows "calculate_backoff_delay k c d
           = calculate_backoff_delay k (c\<lparr>jitter := False\<rparr>) d * (0.9 + 0.2 * d)"
proof -
  define p where "p = min (max_delay c)
                    (base_delay c * exponential_base c ^ (k - 1) * backoff_multiplier c)"
  have p0: "0 \<le> p" using assms by (simp add: p_def)
  have pre: "calculate_backoff_delay k (c\<lparr>jitter := False\<rparr>) d = p"
    unfolding p_def using assms by (intro pre_jitter_delay) auto
  have "0 \<le> p * (0.9 + 0.2 * d)" using p0 assms by simp
  moreover have "p + uniform (- (p * 0.1)) (p * 0.1) d = p * (0.9 + 0.2 * d)"
    by (simp add: uniform_def algebra_simps)
  ultimately have "calculate_backoff_delay k c d = p * (0.9 + 0.2 * d)"
    using assms by (simp add: calculate_backoff_delay_def Let_def p_def min.commute)
  with pre show ?thesis by simp
qed

lemma pre_jitter_mono:
  assumes "0 \<le> base_delay c" "1 \<le> exponential_base c" "0 \<le> backoff_multiplier c" "j \<le> k"
  shows "calculate_backoff_delay j (c\<lparr>jitter := False\<rparr>) d
           \<le> calculate_backoff_delay k (c\<lparr>jitter := False\<rparr>) d'"
proof (cases "j = 0")
  case True
  then show ?thesis by (simp add: calculate_backoff_delay_def Let_def)
next
  case False
  then have jk: "j - 1 \<le> k - 1" "k \<noteq> 0" using assms(4) by auto
  have "exponential_base c ^ (j - 1) \<le> exponential_base c ^ (k - 1)"
    using jk(1) assms(2) by (rule power_increasing)
  then have "base_delay c * exponential_base c ^ (j - 1) * backoff_multiplier c
           \<le> base_delay c * exponential_base c ^ (k - 1) * backoff_multiplier c"
    using assms(1,3) by (simp add: mult_left_mono mult_right_mono)
  then show ?thesis
    using False jk(2) by (simp add: calculate_backoff_delay_def Let_def)
qed

lemma pre_jitter_bound:
  assumes "0 \<le> max_delay c"
  shows "calculate_backoff_delay k (c\<lparr>jitter := False\<rparr>) d \<le> max_delay c"
  using assms by (simp add: calculate_backoff_delay_def Let_def)

lemma backoff_nonneg: "0 \<le> calculate_backoff_delay k c d"
  by (simp add: calculate_backoff_delay_def Let_def)

text \<open>
  Claim C6, as the specification states it for every configuration, fails: with an
  exponential base below 1 the delay decreases from attempt 1 to attempt 2; with a
  backoff multiplier below 1 the delay of attempt 10 exceeds
  \<open>max_delay * backoff_multiplier\<close>; and with a negative base delay the delay is 0, not the
  value of the formula.
\<close>

theorem backoff_delay_counterexample:
  "calculate_backoff_delay 2 decaying_config 0 < calculate_backoff_delay 1 decaying_config 0
   \<and> max_delay damped_config * backoff_multiplier damped_config
        < calculate_backoff_delay 10 damped_config 0
   \<and> calculate_backoff_delay 1 negative_config 0
        \<noteq> min (max_delay negative_config)
             (base_delay negative_config * exponential_base negative_config ^ (1 - 1)
                * backoff_multiplier negative_config)"
  by (simp add: calculate_backoff_delay_def decaying_config_def damped_config_def
        negative_config_def)

text \<open>
  Claim C6, amended. For every configuration with \<open>base_delay \<ge> 0\<close>, \<open>max_delay \<ge> 0\<close>,
  \<open>exponential_base \<ge> 1\<close> and \<open>backoff_multiplier \<ge> 1\<close>: attempt 0 has delay 0; for
  \<open>k \<ge> 1\<close> the delay before jitter (the delay of the same configuration with jitter
  switched off) is \<open>min max_delay (base_delay * exponential_base ^ (k - 1) * backoff_multiplier)\<close>;
  with jitter on and a draw \<open>d\<close> in \<open>[0, 1]\<close> the delay is that value times \<open>0.9 + 0.2 * d\<close>,
  that is, within 10 percent of it; the delay before jitter is non-decreasing in the
  attempt number and at most \<open>max_delay\<close>, which is at most
  \<open>max_delay * backoff_multiplier\<close>; and the delay is never negative.
\<close>

theorem backoff_delay_properties:
  assumes "0 \<le> base_delay c" "0 \<le> max_delay c" "1 \<le> exponential_base c"
    "1 \<le> backoff_multiplier c"
  shows "calculate_backoff_delay 0 c d = 0
    \<and> (\<forall>k\<ge>1. calculate_backoff_delay k (c\<lparr>jitter := False\<rparr>) d
                = min (max_delay c)
                    (base_delay c * exponential_base c ^ (k - 1) * backoff_multiplier c))
    \<and> (\<forall>k\<ge>1. jitter c \<longrightarrow> 0 \<le> d \<longrightarrow> d \<le> 1 \<longrightarrow>
           calculate_backoff_delay k c d
             = calculate_backoff_delay k (c\<lparr>jitter := False\<rparr>) d * (0.9 + 0.2 * d))
    \<and> (\<forall>j k. j \<le> k \<longrightarrow>
           calculate_backoff_delay j (c\<lparr>jitter := False\<rparr>) d
             \<le> calculate_backoff_delay k (c\<lparr>jitter := False\<rparr>) d)
    \<and> (\<forall>k. calculate_backoff_delay k (c\<lparr>jitter := False\<rparr>) d \<le> max_delay c
           \<and> max_delay c \<le> max_delay c * backoff_multiplier c)
    \<and> (\<forall>k. 0 \<le> calculate_backoff_delay k c d)"
proof -
  have e0: "0 \<le> exponential_base c" and m0: "0 \<le> backoff_multiplier c"
    using assms by auto
  have 1: "calculate_backoff_delay 0 c d = 0"
    by (simp add: calculate_backoff_delay_def)
  have 2: "\<forall>k\<ge>1. calculate_backoff_delay k (c\<lparr>jitter := False\<rparr>) d
                = min (max_delay c)
                    (base_delay c * exponential_base c ^ (k - 1) * backoff_multiplier c)"
    using pre_jitter_delay [OF assms(1,2) e0 m0] by blast
  have 3: "\<forall>k\<ge>1. jitter c \<longrightarrow> 0 \<le> d \<longrightarrow> d \<le> 1 \<longrightarrow>
           calculate_backoff_delay k c d
             = calculate_backoff_delay k (c\<lparr>jitter := False\<rparr>) d * (0.9 + 0.2 * d)"
    using jittered_delay [OF assms(1,2) e0 m0] by blast
  have 4: "\<forall>j k. j \<le> k \<longrightarrow>
           calculate_backoff_delay j (c\<lparr>jitter := False\<rparr>) d
             \<le> calculate_backoff_delay k (c\<lparr>jitter := False\<rparr>) d"
    using pre_jitter_mono [OF assms(1,3) m0] by blast
  have "max_delay c * 1 \<le> max_delay c * backoff_multiplier c"
    using assms(4,2) by (rule mult_left_mono)
  then have 5: "\<forall>k. calculate_backoff_delay k (c\<lparr>jitter := False\<rparr>) d \<le> max_delay c
           \<and> max_delay c \<le> max_delay c * backoff_multiplier c"
    using pre_jitter_bound [OF assms(2)] by simp
  have 6: "\<forall>k. 0 \<le> calculate_backoff_delay k c d"
    using backoff_nonneg by blast
  show ?thesis using 1 2 3 4 5 6 by blast
qed

theorem backoff_delay_properties_witness:
  "0 \<le> base_delay default_RetryConfig \<and> 0 \<le> max_delay default_RetryConfig
   \<and> 1 \<le> exponential_base default_RetryConfig \<and> 1 \<le> backoff_multiplier default_RetryConfig
   \<and> calculate_backoff_delay 3 (default_RetryConfig\<lparr>jitter := False\<rparr>) 1 = 8
   \<and> calculate_backoff_delay 3 default_RetryConfig 1 = 8.8
   \<and> calculate_backoff_delay 1 (default_RetryConfig\<lparr>jitter := False\<rparr>) 1
       \<le> calculate_backoff_delay 3 (default_RetryConfig\<lparr>jitter := False\<rparr>) 1"
proof -
  have h: "0 \<le> base_delay default_RetryConfig" "0 \<le> max_delay default_RetryConfig"
    "1 \<le> exponential_base default_RetryConfig" "1 \<le> backoff_multiplier default_RetryConfig"
    by (simp_all add: default_RetryConfig_def)
  note p = backoff_delay_properties [OF h, of 1]
  have j: "jitter default_RetryConfig" by (simp add: default_RetryConfig_def)
  from p have a: "calculate_backoff_delay 3 (default_RetryConfig\<lparr>jitter := False\<rparr>) 1
      = min (max_delay default_RetryConfig)
          (base_delay default_RetryConfig * exponential_base default_RetryConfig ^ (3 - 1)
             * backoff_multiplier default_RetryConfig)"
    by simp
  then have a': "calculate_backoff_delay 3 (default_RetryConfig\<lparr>jitter := False\<rparr>) 1 = 8"
    by (simp add: default_RetryConfig_def)
  from p j have "calculate_backoff_delay 3 default_RetryConfig 1
      = calculate_backoff_delay 3 (default_RetryConfig\<lparr>jitter := False\<rparr>) 1 * (0.9 + 0.2 * 1)"
    by simp
  then have b: "calculate_backoff_delay 3 default_RetryConfig 1 = 8.8"
    unfolding a' by simp
  from p have "\<forall>j k. j \<le> k \<longrightarrow>
           calculate_backoff_delay j (default_RetryConfig\<lparr>jitter := False\<rparr>) 1
             \<le> calculate_backoff_delay k (default_RetryConfig\<lparr>jitter := False\<rparr>) 1"
    by blast
  then have c: "calculate_backoff_delay 1 (default_RetryConfig\<lparr>jitter := False\<rparr>) 1
       \<le> calculate_backoff_delay 3 (default_RetryConfig\<lparr>jitter := False\<rparr>) 1"
    by simp
  show ?thesis using h a' b c by blast
qed


section \<open>The indicator calculator\<close>

lemma length_price_changes [simp]: "length (price_changes prices) = length prices - 1"
  by (simp add: price_changes_def)

lemma rsi_short: "length prices < 15 \<Longrightarrow> calculate_rsi prices 14 = 50"
  by (simp add: calculate_rsi_def)

lemma rsi_no_loss:
  assumes "15 \<le> length prices"
    and "statistics_mean (last_n 14 (losses_of (price_changes prices))) = Inr 0"
  shows "calculate_rsi prices 14 = 100"
proof -
  have "length (gains_of (price_changes prices)) = length prices - 1"
    by (simp add: gains_of_def)
  then have "last_n 14 (gains_of (price_changes prices)) \<noteq> []"
    using assms(1) by (auto simp: last_n_def)
  then obtain g where "statistics_mean (last_n 14 (gains_of (price_changes prices))) = Inr g"
    by (simp add: statistics_mean_def)
  then show ?thesis using assms by (simp add: calculate_rsi_def Let_def)
qed

lemma macd_keys:
  "calculate_macd xs k = Some v \<Longrightarrow> k \<in> {''macd'', ''macd_signal'', ''macd_histogram''}"
  by (auto simp: calculate_macd_def Let_def split: if_splits sum.splits)

lemma bollinger_keys:
  "calculate_bollinger_bands xs p d k = Some v
     \<Longrightarrow> k \<in> {''bb_upper'', ''bb_middle'', ''bb_lower''}"
  by (auto simp: calculate_bollinger_bands_def Let_def split: if_splits sum.splits)

lemma macd_rsi: "calculate_macd xs ''rsi'' = None"
  using macd_keys [of xs "''rsi''"] by (cases "calculate_macd xs ''rsi''") auto

lemma bollinger_rsi: "calculate_bollinger_bands xs p d ''rsi'' = None"
  using bollinger_keys [of xs p d "''rsi''"]
  by (cases "calculate_bollinger_bands xs p d ''rsi''") auto

lemma put_mean_total:
  "xs \<noteq> [] \<Longrightarrow> 0 < n \<Longrightarrow> \<exists>ind'. put_mean key n xs ind = Inr ind'"
  by (auto simp: put_mean_def and_then_def statistics_mean_def last_n_def)

lemma put_volume_cases:
  "\<exists>ind'. put_volume vs ind = Inr ind'
          \<and> (\<forall>k. k \<noteq> ''volume_avg'' \<and> k \<noteq> ''volume_ratio'' \<longrightarrow> ind' k = ind k)"
  by (auto simp: put_volume_def and_then_def statistics_mean_def last_n_def Let_def)

lemma support_resistance_total:
  "closes \<noteq> [] \<Longrightarrow> \<exists>p. calculate_support_resistance closes highs lows = Inr p"
  by (cases closes)
     (auto simp: calculate_support_resistance_def min_max_def py_min_def py_max_def Let_def
           split: sum.splits list.splits)

lemma put_levels_cases:
  "closes \<noteq> []
     \<Longrightarrow> \<exists>ind'. put_levels closes highs lows ind = Inr ind'
               \<and> (\<forall>k. k \<noteq> ''support_level'' \<and> k \<noteq> ''resistance_level'' \<longrightarrow> ind' k = ind k)"
  using support_resistance_total [of closes highs lows]
  by (auto simp: put_levels_def and_then_def)

lemma put_basic_rsi:
  assumes "14 \<le> length closes"
  shows "put_volatility closes (put_bollinger closes (put_macd closes (put_rsi closes ind))) ''rsi''
           = Some (calculate_rsi closes 14)"
  using assms
  by (simp add: put_volatility_def put_bollinger_def put_macd_def put_rsi_def map_add_def
        macd_rsi bollinger_rsi)

lemma indicators_of_rsi:
  assumes "14 \<le> length closes"
  shows "\<exists>ind. indicators_of closes highs lows volumes = Inr ind
               \<and> ind ''rsi'' = Some (calculate_rsi closes 14)"
proof -
  have ne: "closes \<noteq> []" using assms by auto
  obtain i1 where i1: "put_mean ''sma_20'' 20 closes Map.empty = Inr i1"
    using put_mean_total [OF ne zero_less_numeral] by blast
  obtain i2 where i2: "put_mean ''sma_50'' 50 closes i1 = Inr i2"
    using put_mean_total [OF ne zero_less_numeral] by blast
  obtain i3 where i3: "put_mean ''sma_200'' 200 closes i2 = Inr i3"
    using put_mean_total [OF ne zero_less_numeral] by blast
  define i7 where
    "i7 = put_volatility closes (put_bollinger closes (put_macd closes (put_rsi closes i3)))"
  have r7: "i7 ''rsi'' = Some (calculate_rsi closes 14)"
    unfolding i7_def using assms by (rule put_basic_rsi)
  obtain i8 where i8: "put_levels closes highs lows i7 = Inr i8"
    and k8: "\<forall>k. k \<noteq> ''support_level'' \<and> k \<noteq> ''resistance_level'' \<longrightarrow> i8 k = i7 k"
    using put_levels_cases [OF ne, of highs lows i7] by blast
  obtain i9 where i9: "put_volume volumes i8 = Inr i9"
    and k9: "\<forall>k. k \<noteq> ''volume_avg'' \<and> k \<noteq> ''volume_ratio'' \<longrightarrow> i9 k = i8 k"
    using put_volume_cases [of volumes i8] by blast
  have "i8 ''rsi'' = i7 ''rsi''" using k8 by simp
  moreover have "i9 ''rsi'' = i8 ''rsi''" using k9 by simp
  moreover have "indicators_of closes highs lows volumes = Inr i9"
    by (simp only: indicators_of_def i1 i2 i3 and_then_def sum.case i7_def [symmetric] i8 i9)
  ultimately show ?thesis using r7 by simp
qed

lemma indicators_rsi:
  assumes "14 \<le> length (truthy_values close price_data)"
  shows "calculate_technical_indicators price_data ''rsi''
           = Some (calculate_rsi (truthy_values close price_data) 14)"
proof -
  have "length (truthy_values close price_data) \<le> length price_data"
    by (simp add: truthy_values_def map_filter_def)
  then have l: "\<not> (price_data = [] \<or> length price_data < 2)" using assms by auto
  have ne: "truthy_values close price_data \<noteq> []" using assms by auto
  from indicators_of_rsi [OF assms] obtain ind where
    "indicators_of (truthy_values close price_data) (truthy_values high price_data)
        (truthy_values low price_data) (truthy_values volume price_data) = Inr ind"
    "ind ''rsi'' = Some (calculate_rsi (truthy_values close price_data) 14)"
    by blast
  then show ?thesis
    using l ne by (simp add: calculate_technical_indicators_def Let_def)
qed

text \<open>
  Claim C7. A series of fewer than 15 prices has RSI exactly 50; a series of at least 15
  prices whose average loss over the last 14 price changes is exactly zero has RSI 100;
  and whenever the price data hold at least 14 usable closes, the indicator dictionary of
  \<open>calculate_technical_indicators\<close> has the entry \<open>rsi\<close>, with the RSI of those closes.
\<close>

theorem rsi_neutral_saturated_present:
  "(length prices < 15 \<longrightarrow> calculate_rsi prices 14 = 50)
   \<and> (15 \<le> length prices
        \<and> statistics_mean (last_n 14 (losses_of (price_changes prices))) = Inr 0
      \<longrightarrow> calculate_rsi prices 14 = 100)
   \<and> (14 \<le> length (truthy_values close price_data)
      \<longrightarrow> calculate_technical_indicators price_data ''rsi''
            = Some (calculate_rsi (truthy_values close price_data) 14))"
  using rsi_short rsi_no_loss indicators_rsi by blast


theorem rsi_neutral_saturated_present_witness:
  "length [1, 2, 3 :: real] < 15 \<and> calculate_rsi [1, 2, 3] 14 = 50
   \<and> 15 \<le> length rising_prices
   \<and> statistics_mean (last_n 14 (losses_of (price_changes rising_prices))) = Inr 0
   \<and> calculate_rsi rising_prices 14 = 100
   \<and> 14 \<le> length (truthy_values close fourteen_items)
   \<and> calculate_technical_indicators fourteen_items ''rsi'' = Some 50"
proof -
  have a: "length [1, 2, 3 :: real] < 15" by simp
  have b: "15 \<le> length rising_prices" by (simp add: rising_prices_def)
  have c: "statistics_mean (last_n 14 (losses_of (price_changes rising_prices))) = Inr 0"
    by (simp add: rising_prices_def price_changes_def losses_of_def last_n_def
          statistics_mean_def upt_rec)
  have cl: "truthy_values close fourteen_items = [1, 2, 3, 4, 5, 6, 7, 8, 9, 10, 11, 12, 13, 14]"
    by (simp add: truthy_values_def fourteen_items_def map_filter_def)
  have d: "14 \<le> length (truthy_values close fourteen_items)"
    unfolding cl by simp
  have e: "calculate_rsi (truthy_values close fourteen_items) 14 = 50"
    unfolding cl by (simp add: calculate_rsi_def)
  from rsi_neutral_saturated_present [of "[1, 2, 3]" fourteen_items] a d e
  have 1: "calculate_rsi [1, 2, 3] 14 = 50"
    and 3: "calculate_technical_indicators fourteen_items ''rsi'' = Some 50"
    by simp_all
  from rsi_neutral_saturated_present [of rising_prices fourteen_items] b c
  have 2: "calculate_rsi rising_prices 14 = 100"
    by blast
  show ?thesis using a b c d 1 2 3 by blast
qed

lemma round_half_even_le: "round_half_even x \<le> \<lfloor>x\<rfloor> + 1"
  by (simp add: round_half_even_def Let_def)

lemma py_round_le: "py_round x n \<le> x + 1 / 10 ^ n"
proof -
  have "real_of_int (round_half_even (x * 10 ^ n)) \<le> real_of_int (\<lfloor>x * 10 ^ n\<rfloor> + 1)"
    using round_half_even_le [of "x * 10 ^ n"] by linarith
  also have "\<dots> \<le> x * 10 ^ n + 1" by simp
  finally have "real_of_int (round_half_even (x * 10 ^ n)) / 10 ^ n \<le> (x * 10 ^ n + 1) / 10 ^ n"
    by (simp add: divide_right_mono)
  then show ?thesis by (simp add: py_round_def add_divide_distrib)
qed

lemma py_round_integer: "py_round (of_int k) n = of_int k"
proof -
  have "(of_int k :: real) * 10 ^ n = of_int (k * 10 ^ n)" by simp
  then have "round_half_even (of_int k * 10 ^ n) = k * 10 ^ n"
    unfolding round_half_even_def Let_def by (simp only: floor_of_int) simp
  then show ?thesis by (simp add: py_round_def)
qed

lemma spread_window: "last_n 20 spread_prices = spread_prices"
  by (simp add: last_n_def spread_prices_def)

lemma spread_sum: "sum_list spread_prices = 2000"
  by (simp add: spread_prices_def sum_list_replicate)

lemma spread_squares: "sum_list (map (\<lambda>x. (x - 100)\<^sup>2) spread_prices) = 76"
  by (simp add: spread_prices_def sum_list_replicate)

lemma spread_length: "length spread_prices = 20"
  by (simp add: spread_prices_def)

lemma spread_nonempty: "spread_prices \<noteq> []"
  by (simp add: spread_prices_def)

text \<open>
  Claim C8, as the specification states it, fails: on twenty closes whose squared
  deviations from the mean 100 sum to 76, the source returns the upper band
  \<open>100 + 2 * sqrt (76 / 19) = 104\<close>, while the mean plus twice the population standard
  deviation, \<open>100 + 2 * sqrt (76 / 20)\<close>, rounds to less than 104.
\<close>

theorem bollinger_population_stdev_counterexample:
  "20 \<le> length spread_prices
   \<and> calculate_bollinger_bands spread_prices 20 2 ''bb_upper'' = Some 104
   \<and> py_round (sum_list (last_n 20 spread_prices) / 20
                 + 2 * population_stdev (last_n 20 spread_prices)) 2 < 104"
proof -
  have up: "calculate_bollinger_bands spread_prices 20 2 ''bb_upper'' = Some (py_round 104 2)"
    by (simp add: calculate_bollinger_bands_def spread_window spread_length statistics_mean_def
          statistics_variance_def spread_sum spread_squares spread_nonempty Let_def)
  have "py_round (of_int 104) 2 = of_int 104" by (rule py_round_integer)
  then have r: "py_round 104 2 = 104" by simp
  have "sqrt (19 / 5) < 39 / 20"
    by (rule real_less_lsqrt) (simp_all add: power2_eq_square)
  then have "100 + 2 * sqrt (19 / 5) + 1 / 10 ^ 2 < 104" by simp
  moreover have "population_stdev spread_prices = sqrt (19 / 5)"
    by (simp add: population_stdev_def spread_sum spread_length spread_squares)
  ultimately have "py_round (sum_list spread_prices / 20 + 2 * population_stdev spread_prices) 2
                     < 104"
    using py_round_le [of "100 + 2 * sqrt (19 / 5)" 2] by (simp add: spread_sum)
  then show ?thesis using up r by (simp add: spread_window spread_length)
qed

text \<open>
  Claim C8, amended. For every series of at least 20 closes, the middle band is the mean of
  the last 20 closes and the upper and lower bands are that mean plus and minus 2 times
  the sample standard deviation (divisor 19) of the last 20 closes, each rounded to 2
  decimals.
\<close>

theorem bollinger_bands_sample_stdev:
  assumes "20 \<le> length prices"
  shows "let window = last_n 20 prices; middle = sum_list window / 20
         in calculate_bollinger_bands prices 20 2
              = [''bb_upper'' \<mapsto> py_round (middle + 2 * sample_stdev window) 2,
                 ''bb_middle'' \<mapsto> py_round middle 2,
                 ''bb_lower'' \<mapsto> py_round (middle - 2 * sample_stdev window) 2]"
proof -
  have l: "length (last_n 20 prices) = 20"
    using assms by (simp add: last_n_def)
  then have ne: "last_n 20 prices \<noteq> []" by auto
  show ?thesis
    using assms l ne
    by (simp add: calculate_bollinger_bands_def statistics_mean_def statistics_variance_def
          sample_stdev_def Let_def mult.commute)
qed

theorem bollinger_bands_sample_stdev_witness:
  "20 \<le> length spread_prices
   \<and> calculate_bollinger_bands spread_prices 20 2
       = [''bb_upper'' \<mapsto> 104, ''bb_middle'' \<mapsto> 100, ''bb_lower'' \<mapsto> 96]"
proof -
  have h: "20 \<le> length spread_prices" by (simp add: spread_length)
  have s: "sample_stdev spread_prices = 2"
    by (simp add: sample_stdev_def spread_sum spread_length spread_squares)
  have r: "py_round 104 2 = 104" "py_round 100 2 = 100" "py_round 96 2 = 96"
    using py_round_integer [of 104 2] py_round_integer [of 100 2] py_round_integer [of 96 2]
    by simp_all
  from bollinger_bands_sample_stdev [OF h] show ?thesis
    using h by (simp add: Let_def spread_window spread_sum s r)
qed

section \<open>Parsing the recommendation\<close>

lemma default_analysis_with_valid:
  assumes "valid_position p"
  shows "\<exists>a. default_analysis_with p reason = Inr a \<and> confidence a = 0.6
             \<and> recommendation a = HOLD \<and> symbol a = pos_symbol p \<and> reasoning a = reason"
  using assms
  by (simp add: default_analysis_with_def create_analysis_def validate_AssetAnalysis_def
        valid_position_def Let_def create_default_technical_analysis_def
        create_default_sentiment_analysis_def create_default_risk_assessment_def)

lemma parsed_confidence_range: "0 \<le> parsed_confidence g \<and> parsed_confidence g \<le> 1"
  by (simp add: parsed_confidence_def Let_def)

lemma parse_structured_confidence:
  assumes "0 \<le> confidence a" "confidence a \<le> 1"
  shows "0 \<le> confidence (parse_structured s a) \<and> confidence (parse_structured s a) \<le> 1"
  using assms parsed_confidence_range
  by (auto simp: parse_structured_def Let_def split: option.splits)

lemma parse_fallback_confidence:
  assumes "0 \<le> confidence a" "confidence a \<le> 1"
  shows "0 \<le> confidence (parse_fallback t a) \<and> confidence (parse_fallback t a) \<le> 1"
  using assms parsed_confidence_range
  by (auto simp: parse_fallback_def Let_def split: option.splits)

lemma extract_fields_confidence:
  assumes "0 \<le> confidence a" "confidence a \<le> 1"
  shows "0 \<le> confidence (extract_fields t a) \<and> confidence (extract_fields t a) \<le> 1"
  using parse_structured_confidence [OF assms] parse_fallback_confidence [OF assms]
  by (simp add: extract_fields_def split: option.splits)

lemma apply_default_confidence_positive:
  assumes "0 \<le> confidence a" "confidence a \<le> 1"
  shows "0 < confidence (apply_default_confidence a)
         \<and> confidence (apply_default_confidence a) \<le> 1"
  using assms by (cases "recommendation a") (auto simp: apply_default_confidence_def)

lemma validate_consistency_range:
  assumes "0 < confidence a" "confidence a \<le> 1"
  shows "0 < confidence (validate_consistency a) \<and> confidence (validate_consistency a) \<le> 1"
  using assms by (cases "recommendation a") (auto simp: validate_consistency_def)

lemma validate_consistency_recommendation:
  "recommendation (validate_consistency a) = recommendation a"
  by (cases "recommendation a") (auto simp: validate_consistency_def)

lemma parse_agent_response_valid:
  assumes "valid_position p"
  shows "\<exists>a0. default_analysis_with p ''Default analysis with limited data'' = Inr a0
              \<and> confidence a0 = 0.6
              \<and> parse_agent_response response p
                  = Inr (validate_consistency (apply_default_confidence (extract_fields response a0)))"
  using default_analysis_with_valid [OF assms, of "''Default analysis with limited data''"]
  by (auto simp: parse_agent_response_def)

lemma doubtful_buy_outcome:
  "outcome_of (parse_agent_response doubtful_buy sample_position) = Some (BUY, 3 / 10, ''avoid'')"
  by code_simp

lemma plain_buy_outcome:
  "outcome_of (parse_agent_response plain_buy sample_position) = Some (BUY, 1 / 5, ''fine'')"
  by code_simp

text \<open>
  Claim C9. The penalty of the consistency check is meant to lower the confidence (the
  source comments it with \<^verbatim>\<open>Consider adjusting confidence down\<close>), and a BUY whose
  reasoning holds only negative keywords should end strictly lower than the same BUY
  without them. The source misses this below its floor. Both responses here are parsed as
  BUY with confidence 0.2; the reasoning of the first, \<open>''avoid''\<close>, holds one negative
  keyword and no positive one, the reasoning of the second holds no keyword. The first ends
  with confidence 0.3, raised by the check, the second keeps 0.2.
\<close>

theorem consistency_penalty_raises_low_confidence:
  "outcome_of (parse_agent_response doubtful_buy sample_position) = Some (BUY, 3 / 10, ''avoid'')
   \<and> outcome_of (parse_agent_response plain_buy sample_position) = Some (BUY, 1 / 5, ''fine'')
   \<and> indicator_count negative_indicators ''avoid'' = 1
   \<and> indicator_count positive_indicators ''avoid'' = 0
   \<and> indicator_count negative_indicators ''fine'' = 0
   \<and> (1 / 5 :: real) < 3 / 10"
proof -
  have "indicator_count negative_indicators ''avoid'' = 1"
    "indicator_count positive_indicators ''avoid'' = 0"
    "indicator_count negative_indicators ''fine'' = 0"
    by (simp_all add: indicator_count_def negative_indicators_def positive_indicators_def)
  then show ?thesis using doubtful_buy_outcome plain_buy_outcome by simp
qed

text \<open>
  Above the floor the check does what the claim says: the confidence becomes
  \<open>max 0.3 (confidence - 0.2)\<close>, which is strictly lower and not below 0.3.
\<close>

lemma consistency_check_above_floor:
  assumes "recommendation a = BUY \<and> positive_count a < negative_count a
           \<or> recommendation a = SELL \<and> negative_count a < positive_count a"
    and "0.3 < confidence a"
  shows "confidence (validate_consistency a) = max 0.3 (confidence a - 0.2)"
    and "confidence (validate_consistency a) < confidence a"
    and "0.3 \<le> confidence (validate_consistency a)"
proof -
  show e: "confidence (validate_consistency a) = max 0.3 (confidence a - 0.2)"
    using assms(1) by (auto simp: validate_consistency_def)
  show "confidence (validate_consistency a) < confidence a"
    unfolding e using assms(2) by (simp add: max_def)
  show "0.3 \<le> confidence (validate_consistency a)"
    unfolding e by (rule max.cobounded1)
qed

text \<open>
  Claim C10. For a valid position and every response text, the parser returns an analysis
  whose confidence is positive and at most 1. A matched confidence figure is stored as its
  value, divided by 100 when it is above 1, clamped to \<open>[0, 1]\<close>; a confidence of exactly 0
  after parsing is replaced by 0.75 for BUY, 0.70 for SELL and 0.60 for HOLD, and any other
  confidence is left as it is.
\<close>

theorem parsed_confidence_never_zero:
  "(valid_position p
      \<longrightarrow> (\<exists>a. parse_agent_response response p = Inr a \<and> 0 < confidence a \<and> confidence a \<le> 1))
   \<and> parsed_confidence g
        = min (max (if float_of g > 1 then float_of g / 100 else float_of g) 0) 1
   \<and> 0 \<le> parsed_confidence g \<and> parsed_confidence g \<le> 1
   \<and> (confidence a = 0
      \<longrightarrow> confidence (apply_default_confidence a)
            = (case recommendation a of BUY \<Rightarrow> 0.75 | SELL \<Rightarrow> 0.70 | HOLD \<Rightarrow> 0.60)
          \<and> recommendation (apply_default_confidence a) = recommendation a)
   \<and> (confidence a \<noteq> 0 \<longrightarrow> apply_default_confidence a = a)"
proof -
  have 1: "valid_position p
      \<longrightarrow> (\<exists>a. parse_agent_response response p = Inr a \<and> 0 < confidence a \<and> confidence a \<le> 1)"
  proof
    assume v: "valid_position p"
    from parse_agent_response_valid [OF v, of response] obtain a0 where
      a0: "confidence a0 = 0.6"
      and p: "parse_agent_response response p
                = Inr (validate_consistency (apply_default_confidence (extract_fields response a0)))"
      by blast
    have "0 \<le> confidence a0" "confidence a0 \<le> 1" using a0 by simp_all
    from extract_fields_confidence [OF this, of response]
    have "0 \<le> confidence (extract_fields response a0)" "confidence (extract_fields response a0) \<le> 1"
      by simp_all
    from apply_default_confidence_positive [OF this]
    have "0 < confidence (apply_default_confidence (extract_fields response a0))"
      "confidence (apply_default_confidence (extract_fields response a0)) \<le> 1"
      by simp_all
    from validate_consistency_range [OF this] p
    show "\<exists>a. parse_agent_response response p = Inr a \<and> 0 < confidence a \<and> confidence a \<le> 1"
      by blast
  qed
  have 2: "parsed_confidence g
        = min (max (if float_of g > 1 then float_of g / 100 else float_of g) 0) 1"
    by (simp add: parsed_confidence_def Let_def)
  have 4: "confidence a = 0
      \<longrightarrow> confidence (apply_default_confidence a)
            = (case recommendation a of BUY \<Rightarrow> 0.75 | SELL \<Rightarrow> 0.70 | HOLD \<Rightarrow> 0.60)
          \<and> recommendation (apply_default_confidence a) = recommendation a"
    by (cases "recommendation a") (auto simp: apply_default_confidence_def)
  have 5: "confidence a \<noteq> 0 \<longrightarrow> apply_default_confidence a = a"
    by (simp add: apply_default_confidence_def)
  show ?thesis using 1 2 parsed_confidence_range 4 5 by blast
qed

theorem parsed_confidence_never_zero_witness:
  "valid_position sample_position
   \<and> outcome_of (parse_agent_response ''sell. Confidence: 0%'' sample_position)
       = Some (SELL, 7 / 10, ''Default analysis with limited data'')
   \<and> parsed_confidence ''85.5'' = 0.855
   \<and> confidence (sample_analysis\<lparr>confidence := 0\<rparr>) = 0
   \<and> confidence (apply_default_confidence (sample_analysis\<lparr>confidence := 0\<rparr>)) = 0.75
   \<and> confidence sample_analysis \<noteq> 0
   \<and> apply_default_confidence sample_analysis = sample_analysis"
proof -
  have v: "valid_position sample_position"
    by (simp add: valid_position_def sample_position_def)
  have o: "outcome_of (parse_agent_response ''sell. Confidence: 0%'' sample_position)
       = Some (SELL, 7 / 10, ''Default analysis with limited data'')"
    by code_simp
  have fl: "float_of ''85.5'' = 85.5"
    by (simp add: float_of_def is_digit_def decimal_value_def digit_value_def)
  have z: "confidence (sample_analysis\<lparr>confidence := 0\<rparr>) = 0" by simp
  have r: "recommendation (sample_analysis\<lparr>confidence := 0\<rparr>) = BUY"
    by (simp add: sample_analysis_def)
  have n: "confidence sample_analysis \<noteq> 0" by (simp add: sample_analysis_def)
  note t = parsed_confidence_never_zero [of sample_position "''sell. Confidence: 0%''" "''85.5''"]
  from t [of sample_analysis] fl have a: "parsed_confidence ''85.5'' = 0.855" by simp
  from t [of "sample_analysis\<lparr>confidence := 0\<rparr>"] z r
  have b: "confidence (apply_default_confidence (sample_analysis\<lparr>confidence := 0\<rparr>)) = 0.75"
    by simp
  from t [of sample_analysis] n have c: "apply_default_confidence sample_analysis = sample_analysis"
    by blast
  show ?thesis using v o a z b n c by blast
qed

section \<open>The analysis cache\<close>








section \<open>The portfolio run\<close>

lemma create_default_analysis_valid:
  assumes "valid_position p"
  shows "create_default_analysis p = Inr (default_hold_analysis p)"
  using assms
  by (simp add: create_default_analysis_def default_analysis_with_def create_analysis_def
        validate_AssetAnalysis_def valid_position_def Let_def default_hold_analysis_def
        create_default_technical_analysis_def create_default_sentiment_analysis_def
        create_default_risk_assessment_def)

lemma settle_valid:
  assumes "valid_position p"
  shows "settle p r = Inr (case r of Inr a \<Rightarrow> a | Inl _ \<Rightarrow> default_hold_analysis p)"
  using create_default_analysis_valid [OF assms]
  by (simp add: settle_def split: sum.splits)

lemma analyses_in_order_Cons:
  "analyses_in_order analyze (p # ps) s =
     ((case fst (analyze p s) of Inr a \<Rightarrow> a | Inl _ \<Rightarrow> default_hold_analysis p)
        # fst (analyses_in_order analyze ps (snd (analyze p s))),
      snd (analyses_in_order analyze ps (snd (analyze p s))))"
  by (simp split: prod.splits)

lemma length_analyses_in_order [simp]:
  "length (fst (analyses_in_order analyze ps s)) = length ps"
  by (induction ps arbitrary: s)
     (simp_all add: analyses_in_order_Cons del: analyses_in_order.simps(2))

lemma analyses_in_order_append:
  "analyses_in_order analyze (xs @ ys) s =
     (fst (analyses_in_order analyze xs s)
        @ fst (analyses_in_order analyze ys (snd (analyses_in_order analyze xs s))),
      snd (analyses_in_order analyze ys (snd (analyses_in_order analyze xs s))))"
  by (induction xs arbitrary: s)
     (simp_all add: analyses_in_order_Cons del: analyses_in_order.simps(2))

lemma analyses_in_order_nth:
  assumes "i < length ps"
  shows "\<exists>si. fst (analyses_in_order analyze ps s) ! i
               = (case fst (analyze (ps ! i) si) of
                    Inr a \<Rightarrow> a | Inl _ \<Rightarrow> default_hold_analysis (ps ! i))"
  using assms
proof (induction ps arbitrary: s i)
  case Nil
  then show ?case by simp
next
  case (Cons p ps)
  show ?case
  proof (cases i)
    case 0
    have "fst (analyses_in_order analyze (p # ps) s) ! 0
            = (case fst (analyze ((p # ps) ! 0) s) of
                 Inr a \<Rightarrow> a | Inl _ \<Rightarrow> default_hold_analysis ((p # ps) ! 0))"
      by (simp add: analyses_in_order_Cons cong: sum.case_cong
               del: analyses_in_order.simps(2))
    then show ?thesis unfolding 0 by (rule exI)
  next
    case (Suc j)
    then have "j < length ps" using Cons.prems by simp
    from Cons.IH [OF this, of "snd (analyze p s)"] obtain sj where
      "fst (analyses_in_order analyze ps (snd (analyze p s))) ! j
         = (case fst (analyze (ps ! j) sj) of
              Inr a \<Rightarrow> a | Inl _ \<Rightarrow> default_hold_analysis (ps ! j))"
      by blast
    then have "fst (analyses_in_order analyze (p # ps) s) ! Suc j
         = (case fst (analyze ((p # ps) ! Suc j) sj) of
              Inr a \<Rightarrow> a | Inl _ \<Rightarrow> default_hold_analysis ((p # ps) ! Suc j))"
      by (simp add: analyses_in_order_Cons cong: sum.case_cong
               del: analyses_in_order.simps(2))
    then show ?thesis unfolding Suc by (rule exI)
  qed
qed

lemma analyze_asset_with_delay_valid:
  assumes "valid_position p"
  shows "\<exists>evs'. analyze_asset_with_delay analyze config p delay s evs
               = (Inr (case fst (analyze p s) of
                         Inr a \<Rightarrow> a | Inl _ \<Rightarrow> default_hold_analysis p),
                  snd (analyze p s), evs')
             \<and> filter is_batch evs' = filter is_batch evs"
  using create_default_analysis_valid [OF assms]
  by (cases "analyze p s")
     (auto simp: analyze_asset_with_delay_def Let_def is_batch_def split: sum.splits)

lemma gather_analysis_tasks:
  assumes "\<forall>p \<in> set ps. valid_position p"
  shows "\<exists>evs'. gather (map (\<lambda>(i, position).
                    analyze_asset_with_delay analyze config position
                      (real i * stagger_delay config)) (enumerate k ps)) s evs
               = (map Inr (fst (analyses_in_order analyze ps s)),
                  snd (analyses_in_order analyze ps s), evs')
             \<and> filter is_batch evs' = filter is_batch evs"
  using assms
proof (induction ps arbitrary: k s evs)
  case Nil
  then show ?case by simp
next
  case (Cons p ps)
  have vp: "valid_position p" using Cons.prems by simp
  define s1 where "s1 = snd (analyze p s)"
  from analyze_asset_with_delay_valid [OF vp, of analyze config "real k * stagger_delay config" s evs]
  obtain evs1 where
    t: "analyze_asset_with_delay analyze config p (real k * stagger_delay config) s evs
          = (Inr (case fst (analyze p s) of
                    Inr a \<Rightarrow> a | Inl _ \<Rightarrow> default_hold_analysis p), s1, evs1)"
    and b1: "filter is_batch evs1 = filter is_batch evs"
    unfolding s1_def by blast
  have "\<forall>p \<in> set ps. valid_position p" using Cons.prems by simp
  from Cons.IH [OF this, of "Suc k" s1 evs1] obtain evs2 where
    g: "gather (map (\<lambda>(i, position).
                    analyze_asset_with_delay analyze config position
                      (real i * stagger_delay config)) (enumerate (Suc k) ps)) s1 evs1
          = (map Inr (fst (analyses_in_order analyze ps s1)),
             snd (analyses_in_order analyze ps s1), evs2)"
    and b2: "filter is_batch evs2 = filter is_batch evs1"
    by blast
  have "gather (map (\<lambda>(i, position).
                    analyze_asset_with_delay analyze config position
                      (real i * stagger_delay config)) (enumerate k (p # ps))) s evs
          = (map Inr (fst (analyses_in_order analyze (p # ps) s)),
             snd (analyses_in_order analyze (p # ps) s), evs2)"
    using t g
    by (simp add: analyses_in_order_Cons s1_def del: analyses_in_order.simps(2))
  with b1 b2 show ?case by auto
qed

lemma process_results_settled:
  assumes "length analyses = length ps"
  shows "process_results ps (map Inr analyses) = Inr analyses"
  using assms
  by (induction ps "map Inr analyses :: (exn + AssetAnalysis) list" arbitrary: analyses
        rule: process_results.induct)
     (auto simp: settle_def)

lemma sequential_loop_valid:
  assumes "\<forall>p \<in> set ps. valid_position p"
  shows "sequential_loop analyze ps s
           = (Inr (fst (analyses_in_order analyze ps s)), snd (analyses_in_order analyze ps s))"
  using assms
proof (induction ps arbitrary: s)
  case Nil
  then show ?case by simp
next
  case (Cons p ps)
  have vp: "valid_position p" using Cons.prems by simp
  have "\<forall>p \<in> set ps. valid_position p" using Cons.prems by simp
  note ih = Cons.IH [OF this]
  show ?case
    by (cases "analyze p s")
       (simp add: settle_valid [OF vp] ih analyses_in_order_Cons
             del: analyses_in_order.simps(2))
qed

lemma sequential_portfolio_analysis_valid:
  assumes "\<forall>p \<in> set (all_positions pf). valid_position p"
  shows "sequential_portfolio_analysis analyze pf s evs
           = (analyze_portfolio_correlations
                (fst (analyses_in_order analyze (all_positions pf) s)) pf,
              snd (analyses_in_order analyze (all_positions pf) s), evs)"
proof -
  have a: "\<forall>p \<in> set (stocks pf). valid_position p" "\<forall>p \<in> set (crypto pf). valid_position p"
    using assms by (simp_all add: all_positions_def)
  show ?thesis
    by (simp add: sequential_portfolio_analysis_def sequential_loop_valid [OF a(1)]
          sequential_loop_valid [OF a(2)] all_positions_def analyses_in_order_append)
qed

lemma batch_loop_Cons:
  assumes batch: "batch = take (nat (max_concurrent_analyses config)) (drop i ps)"
    and evs0: "evs0 = evs @ [ProcessingBatch (int i div max_concurrent_analyses config + 1)
                        ((int (length ps) + max_concurrent_analyses config - 1)
                           div max_concurrent_analyses config) (length batch)]"
    and g: "gather (analysis_tasks analyze config batch) s evs0 = (map Inr as, s1, evs1)"
    and len: "length as = length batch"
    and evs2: "evs2 = (if int i + max_concurrent_analyses config < int (length ps)
                       then evs1 @ [Sleep (batch_delay config)] else evs1)"
    and rest: "batch_loop analyze config ps starts s1 evs2 = (Inr later, s3, evs3)"
  shows "batch_loop analyze config ps (i # starts) s evs = (Inr (as @ later), s3, evs3)"
proof -
  have pr: "process_results batch (map Inr as) = Inr as"
    using len by (rule process_results_settled)
  show ?thesis
    by (subst batch_loop.simps(2))
       (simp only: Let_def batch [symmetric] evs0 [symmetric] g prod.case pr sum.case
          evs2 [symmetric] rest)
qed

lemma batch_loop_chunks:
  assumes "\<forall>p \<in> set ps. valid_position p"
    and "0 < max_concurrent_analyses config"
    and "length ps \<le> (j + d) * nat (max_concurrent_analyses config)"
  shows "\<exists>evs'. batch_loop analyze config ps
                  (map (\<lambda>k. k * nat (max_concurrent_analyses config)) [j ..< j + d]) s evs
               = (Inr (fst (analyses_in_order analyze
                              (drop (j * nat (max_concurrent_analyses config)) ps) s)),
                  snd (analyses_in_order analyze
                         (drop (j * nat (max_concurrent_analyses config)) ps) s), evs')
             \<and> length (filter is_batch evs') = length (filter is_batch evs) + d"
  using assms(3)
proof (induction d arbitrary: j s evs)
  case 0
  then have "drop (j * nat (max_concurrent_analyses config)) ps = []" by simp
  then show ?case by simp
next
  case (Suc d)
  define m where "m = nat (max_concurrent_analyses config)"
  have mpos: "0 < m" using assms(2) by (simp add: m_def)
  define batch where "batch = take m (drop (j * m) ps)"
  define evs0 where
    "evs0 = evs @ [ProcessingBatch (int (j * m) div max_concurrent_analyses config + 1)
                     ((int (length ps) + max_concurrent_analyses config - 1)
                        div max_concurrent_analyses config) (length batch)]"
  have vb: "\<forall>p \<in> set batch. valid_position p"
    using assms(1) by (auto simp: batch_def dest: in_set_takeD in_set_dropD)
  from gather_analysis_tasks [OF vb, of analyze config 0 s evs0] obtain evs1 where
    g: "gather (analysis_tasks analyze config batch) s evs0
          = (map Inr (fst (analyses_in_order analyze batch s)),
             snd (analyses_in_order analyze batch s), evs1)"
    and b1: "filter is_batch evs1 = filter is_batch evs0"
    unfolding analysis_tasks_def by blast
  define s1 where "s1 = snd (analyses_in_order analyze batch s)"
  define evs2 where
    "evs2 = (if int (j * m) + max_concurrent_analyses config < int (length ps)
             then evs1 @ [Sleep (batch_delay config)] else evs1)"
  have b2: "filter is_batch evs2 = filter is_batch evs1"
    by (simp add: evs2_def is_batch_def)
  have "length ps \<le> (Suc j + d) * m" using Suc.prems by (simp add: m_def)
  from Suc.IH [of "Suc j" s1 evs2] this obtain evs3 where
    r: "batch_loop analyze config ps (map (\<lambda>k. k * m) [Suc j ..< Suc j + d]) s1 evs2
          = (Inr (fst (analyses_in_order analyze (drop (Suc j * m) ps) s1)),
             snd (analyses_in_order analyze (drop (Suc j * m) ps) s1), evs3)"
    and b3: "length (filter is_batch evs3) = length (filter is_batch evs2) + d"
    unfolding m_def by blast
  have split: "drop (j * m) ps = batch @ drop (Suc j * m) ps"
  proof -
    have "drop (j * m) ps = take m (drop (j * m) ps) @ drop m (drop (j * m) ps)"
      by (simp only: append_take_drop_id)
    also have "drop m (drop (j * m) ps) = drop (Suc j * m) ps"
      by simp
    finally show ?thesis by (simp only: batch_def)
  qed
  have whole: "analyses_in_order analyze (drop (j * m) ps) s
      = (fst (analyses_in_order analyze batch s)
           @ fst (analyses_in_order analyze (drop (Suc j * m) ps) s1),
         snd (analyses_in_order analyze (drop (Suc j * m) ps) s1))"
    unfolding split s1_def by (rule analyses_in_order_append)
  have l: "map (\<lambda>k. k * m) [j ..< j + Suc d] = j * m # map (\<lambda>k. k * m) [Suc j ..< Suc j + d]"
    by (simp add: upt_conv_Cons)
  have "batch_loop analyze config ps (j * m # map (\<lambda>k. k * m) [Suc j ..< Suc j + d]) s evs
      = (Inr (fst (analyses_in_order analyze batch s)
                @ fst (analyses_in_order analyze (drop (Suc j * m) ps) s1)),
         snd (analyses_in_order analyze (drop (Suc j * m) ps) s1), evs3)"
  proof (rule batch_loop_Cons)
    show "batch = take (nat (max_concurrent_analyses config)) (drop (j * m) ps)"
      by (simp only: batch_def m_def)
    show "evs0 = evs @ [ProcessingBatch (int (j * m) div max_concurrent_analyses config + 1)
                     ((int (length ps) + max_concurrent_analyses config - 1)
                        div max_concurrent_analyses config) (length batch)]"
      by (rule evs0_def)
    show "gather (analysis_tasks analyze config batch) s evs0
          = (map Inr (fst (analyses_in_order analyze batch s)), s1, evs1)"
      unfolding s1_def by (rule g)
    show "length (fst (analyses_in_order analyze batch s)) = length batch"
      by (rule length_analyses_in_order)
    show "evs2 = (if int (j * m) + max_concurrent_analyses config < int (length ps)
             then evs1 @ [Sleep (batch_delay config)] else evs1)"
      by (rule evs2_def)
    show "batch_loop analyze config ps (map (\<lambda>k. k * m) [Suc j ..< Suc j + d]) s1 evs2
          = (Inr (fst (analyses_in_order analyze (drop (Suc j * m) ps) s1)),
             snd (analyses_in_order analyze (drop (Suc j * m) ps) s1), evs3)"
      by (rule r)
  qed
  then have "batch_loop analyze config ps (map (\<lambda>k. k * m) [j ..< j + Suc d]) s evs
      = (Inr (fst (analyses_in_order analyze (drop (j * m) ps) s)),
         snd (analyses_in_order analyze (drop (j * m) ps) s), evs3)"
    unfolding l whole by simp
  moreover have "length (filter is_batch evs3) = length (filter is_batch evs) + Suc d"
    using b3 b2 b1 by (simp add: evs0_def is_batch_def)
  ultimately show ?case unfolding m_def by blast
qed

lemma range_covers:
  assumes "0 < (m::nat)"
  shows "n \<le> ((n + m - 1) div m) * m"
proof -
  define q where "q = (n + m - 1) div m * m"
  define r where "r = (n + m - 1) mod m"
  have "r < m" unfolding r_def using assms by (rule mod_less_divisor)
  moreover have "q + r = n + m - 1" unfolding q_def r_def by (rule div_mult_mod_eq)
  ultimately have "n \<le> q" using assms by linarith
  then show ?thesis unfolding q_def .
qed

lemma batch_portfolio_analysis_valid:
  assumes "\<forall>p \<in> set (all_positions pf). valid_position p"
    and "0 \<le> max_concurrent_analyses config"
  shows "\<exists>evs'. batch_portfolio_analysis analyze config pf (all_positions pf) s evs
               = (analyze_portfolio_correlations
                    (fst (analyses_in_order analyze (all_positions pf) s)) pf,
                  snd (analyses_in_order analyze (all_positions pf) s), evs')
             \<and> (0 < max_concurrent_analyses config \<longrightarrow>
                  length (filter is_batch evs')
                    = length (filter is_batch evs)
                      + (length (all_positions pf) + nat (max_concurrent_analyses config) - 1)
                          div nat (max_concurrent_analyses config))"
proof (cases "max_concurrent_analyses config = 0")
  case True
  then show ?thesis
    using sequential_portfolio_analysis_valid [OF assms(1), of analyze s evs]
    by (simp add: batch_portfolio_analysis_def range_from_0_def)
next
  case False
  then have pos: "0 < max_concurrent_analyses config" using assms(2) by simp
  define m where "m = nat (max_concurrent_analyses config)"
  define t where "t = (length (all_positions pf) + m - 1) div m"
  have mpos: "0 < m" using pos by (simp add: m_def)
  have cover: "length (all_positions pf) \<le> (0 + t) * m"
    using range_covers [OF mpos, of "length (all_positions pf)"] by (simp add: t_def)
  from batch_loop_chunks [OF assms(1) pos, of 0 t analyze s evs] cover
  obtain evs' where
    b: "batch_loop analyze config (all_positions pf) (map (\<lambda>k. k * m) [0 ..< 0 + t]) s evs
          = (Inr (fst (analyses_in_order analyze (all_positions pf) s)),
             snd (analyses_in_order analyze (all_positions pf) s), evs')"
    and c: "length (filter is_batch evs') = length (filter is_batch evs) + t"
    unfolding m_def by auto
  have "range_from_0 (length (all_positions pf)) (max_concurrent_analyses config)
          = Inr (map (\<lambda>k. k * m) [0 ..< 0 + t])"
    using pos by (simp add: range_from_0_def m_def t_def)
  then have "batch_portfolio_analysis analyze config pf (all_positions pf) s evs
               = (analyze_portfolio_correlations
                    (fst (analyses_in_order analyze (all_positions pf) s)) pf,
                  snd (analyses_in_order analyze (all_positions pf) s), evs')"
    using b by (simp add: batch_portfolio_analysis_def)
  then show ?thesis using c by (auto simp: t_def m_def)
qed

lemma correlations_length [simp]:
  "length (analyze_portfolio_correlations analyses pf) = length analyses"
  by (induction analyses) (auto split: option.splits)

lemma correlations_symbol [simp]:
  "map symbol (analyze_portfolio_correlations analyses pf) = map symbol analyses"
  by (induction analyses) (auto simp: reweigh_def Let_def split: option.splits)

lemma correlations_recommendation [simp]:
  "map recommendation (analyze_portfolio_correlations analyses pf) = map recommendation analyses"
  by (induction analyses) (auto simp: reweigh_def Let_def split: option.splits)

lemma correlations_reasoning [simp]:
  "map reasoning (analyze_portfolio_correlations analyses pf) = map reasoning analyses"
  by (induction analyses) (auto simp: reweigh_def Let_def split: option.splits)

lemma analyses_in_order_symbols:
  assumes "\<forall>p s' a. fst (analyze p s') = Inr a \<longrightarrow> symbol a = pos_symbol p"
  shows "map symbol (fst (analyses_in_order analyze ps s)) = map pos_symbol ps"
proof (induction ps arbitrary: s)
  case Nil
  then show ?case by simp
next
  case (Cons p ps)
  have "symbol (case fst (analyze p s) of Inr a \<Rightarrow> a | Inl _ \<Rightarrow> default_hold_analysis p)
          = pos_symbol p"
  proof (cases "fst (analyze p s)")
    case (Inl e)
    then show ?thesis by (simp add: default_hold_analysis_def)
  next
    case (Inr a)
    then show ?thesis using assms by simp
  qed
  then show ?case
    using Cons.IH [of "snd (analyze p s)"]
    by (simp add: analyses_in_order_Cons del: analyses_in_order.simps(2))
qed

lemma generate_portfolio_analysis_valid:
  assumes "\<forall>p \<in> set (all_positions pf). valid_position p"
    and "enable_parallel_processing config \<longrightarrow> 0 \<le> max_concurrent_analyses config"
  shows "\<exists>evs. generate_portfolio_analysis analyze config pf s
              = (analyze_portfolio_correlations
                   (fst (analyses_in_order analyze (all_positions pf) s)) pf,
                 snd (analyses_in_order analyze (all_positions pf) s), evs)
            \<and> (enable_parallel_processing config \<and> 0 < max_concurrent_analyses config
                 \<and> max_concurrent_analyses config < int (length (all_positions pf))
               \<longrightarrow> length (filter is_batch evs)
                     = (length (all_positions pf) + nat (max_concurrent_analyses config) - 1)
                         div nat (max_concurrent_analyses config))"
proof (cases "enable_parallel_processing config")
  case False
  then show ?thesis
    using sequential_portfolio_analysis_valid [OF assms(1), of analyze s "[]"]
    by (simp add: generate_portfolio_analysis_def)
next
  case True
  note par = True
  then have m0: "0 \<le> max_concurrent_analyses config" using assms(2) by simp
  show ?thesis
  proof (cases "all_positions pf = []")
    case True
    then show ?thesis
      using par by (simp add: generate_portfolio_analysis_def all_positions_def)
  next
    case False
    note ne = False
    show ?thesis
    proof (cases "int (length (all_positions pf)) > max_concurrent_analyses config")
      case True
      from batch_portfolio_analysis_valid [OF assms(1) m0, of analyze s "[]"]
      obtain evs' where
        b: "batch_portfolio_analysis analyze config pf (all_positions pf) s []
              = (analyze_portfolio_correlations
                   (fst (analyses_in_order analyze (all_positions pf) s)) pf,
                 snd (analyses_in_order analyze (all_positions pf) s), evs')"
        and c: "0 < max_concurrent_analyses config \<longrightarrow>
                  length (filter is_batch evs')
                    = length (filter is_batch [])
                      + (length (all_positions pf) + nat (max_concurrent_analyses config) - 1)
                          div nat (max_concurrent_analyses config)"
        by blast
      have "generate_portfolio_analysis analyze config pf s
              = batch_portfolio_analysis analyze config pf (all_positions pf) s []"
        using par ne True
        by (simp add: generate_portfolio_analysis_def all_positions_def [symmetric] Let_def)
      with b c show ?thesis by auto
    next
      case False
      from gather_analysis_tasks [OF assms(1), of analyze config 0 s "[]"] obtain evs1 where
        g: "gather (analysis_tasks analyze config (all_positions pf)) s []
              = (map Inr (fst (analyses_in_order analyze (all_positions pf) s)),
                 snd (analyses_in_order analyze (all_positions pf) s), evs1)"
        unfolding analysis_tasks_def by blast
      have pr: "process_results (all_positions pf)
                  (map Inr (fst (analyses_in_order analyze (all_positions pf) s)))
                = Inr (fst (analyses_in_order analyze (all_positions pf) s))"
        by (rule process_results_settled) simp
      have "generate_portfolio_analysis analyze config pf s
              = (analyze_portfolio_correlations
                   (fst (analyses_in_order analyze (all_positions pf) s)) pf,
                 snd (analyses_in_order analyze (all_positions pf) s), evs1)"
        using par ne False g pr
        by (simp add: generate_portfolio_analysis_def all_positions_def [symmetric] Let_def)
      then show ?thesis using False by auto
    qed
  qed
qed

text \<open>
  For valid positions and a number of concurrent analyses that is not negative, every
  mode of the run returns the analyses of the positions in the order of the positions,
  after the correlation pass: one per position, a position whose analysis raises getting
  its default HOLD analysis; and a batched run announces as many batches as chunks of that
  size are needed.
\<close>

lemma portfolio_analysis_one_per_position:
  assumes "\<forall>p \<in> set (all_positions pf). valid_position p"
    and "enable_parallel_processing config \<longrightarrow> 0 \<le> max_concurrent_analyses config"
  shows "fst (generate_portfolio_analysis analyze config pf s)
           = analyze_portfolio_correlations
               (fst (analyses_in_order analyze (all_positions pf) s)) pf"
    and "length (fst (generate_portfolio_analysis analyze config pf s))
           = length (all_positions pf)"
    and "map recommendation (fst (generate_portfolio_analysis analyze config pf s))
           = map recommendation (fst (analyses_in_order analyze (all_positions pf) s))"
    and "\<forall>p s' a. fst (analyze p s') = Inr a \<longrightarrow> symbol a = pos_symbol p
         \<Longrightarrow> map symbol (fst (generate_portfolio_analysis analyze config pf s))
               = map pos_symbol (all_positions pf)"
    and "enable_parallel_processing config \<Longrightarrow> 0 < max_concurrent_analyses config
         \<Longrightarrow> max_concurrent_analyses config < int (length (all_positions pf))
         \<Longrightarrow> length (filter is_batch (snd (snd (generate_portfolio_analysis analyze config pf s))))
               = (length (all_positions pf) + nat (max_concurrent_analyses config) - 1)
                   div nat (max_concurrent_analyses config)"
proof -
  from generate_portfolio_analysis_valid [OF assms, of analyze s] obtain evs where
    g: "generate_portfolio_analysis analyze config pf s
          = (analyze_portfolio_correlations
               (fst (analyses_in_order analyze (all_positions pf) s)) pf,
             snd (analyses_in_order analyze (all_positions pf) s), evs)"
    and b: "enable_parallel_processing config \<and> 0 < max_concurrent_analyses config
                 \<and> max_concurrent_analyses config < int (length (all_positions pf))
               \<longrightarrow> length (filter is_batch evs)
                     = (length (all_positions pf) + nat (max_concurrent_analyses config) - 1)
                         div nat (max_concurrent_analyses config)"
    by blast
  show "fst (generate_portfolio_analysis analyze config pf s)
           = analyze_portfolio_correlations
               (fst (analyses_in_order analyze (all_positions pf) s)) pf"
    by (simp add: g)
  show "length (fst (generate_portfolio_analysis analyze config pf s))
           = length (all_positions pf)"
    by (simp add: g)
  show "map recommendation (fst (generate_portfolio_analysis analyze config pf s))
           = map recommendation (fst (analyses_in_order analyze (all_positions pf) s))"
    by (simp add: g)
  show "map symbol (fst (generate_portfolio_analysis analyze config pf s))
               = map pos_symbol (all_positions pf)"
    if "\<forall>p s' a. fst (analyze p s') = Inr a \<longrightarrow> symbol a = pos_symbol p"
    using analyses_in_order_symbols [OF that] by (simp add: g)
  show "length (filter is_batch (snd (snd (generate_portfolio_analysis analyze config pf s))))
               = (length (all_positions pf) + nat (max_concurrent_analyses config) - 1)
                   div nat (max_concurrent_analyses config)"
    if "enable_parallel_processing config" "0 < max_concurrent_analyses config"
      "max_concurrent_analyses config < int (length (all_positions pf))"
    using b that by (simp add: g)
qed

text \<open>Twelve positions, five at a time: twelve analyses in the order of the positions,
  in three batches.\<close>

lemma twelve_positions_valid: "\<forall>p \<in> set (all_positions twelve_positions). valid_position p"
  by (simp add: all_positions_def twelve_positions_def position_named_def valid_position_def)

lemma flaky_analyzer_symbol:
  "\<forall>p s' a. fst (flaky_analyzer p s') = Inr a \<longrightarrow> symbol a = pos_symbol p"
  by (auto simp: flaky_analyzer_def default_hold_analysis_def split: if_splits)

lemma twelve_positions_three_batches:
  "length (fst (generate_portfolio_analysis flaky_analyzer five_at_a_time twelve_positions 0)) = 12"
  "map symbol (fst (generate_portfolio_analysis flaky_analyzer five_at_a_time twelve_positions 0))
     = [''S0'', ''S1'', ''S2'', ''S3'', ''S4'', ''S5'', ''S6'', ''S7'',
        ''C0'', ''C1'', ''C2'', ''C3'']"
  "length (filter is_batch
             (snd (snd (generate_portfolio_analysis flaky_analyzer five_at_a_time
                          twelve_positions 0)))) = 3"
proof -
  have c: "enable_parallel_processing five_at_a_time \<longrightarrow> 0 \<le> max_concurrent_analyses five_at_a_time"
    by (simp add: five_at_a_time_def)
  have l: "length (all_positions twelve_positions) = 12"
    by (simp add: all_positions_def twelve_positions_def)
  note t = portfolio_analysis_one_per_position [OF twelve_positions_valid c, of flaky_analyzer 0]
  show "length (fst (generate_portfolio_analysis flaky_analyzer five_at_a_time
                       twelve_positions 0)) = 12"
    using t(2) l by simp
  show "map symbol (fst (generate_portfolio_analysis flaky_analyzer five_at_a_time
                           twelve_positions 0))
     = [''S0'', ''S1'', ''S2'', ''S3'', ''S4'', ''S5'', ''S6'', ''S7'',
        ''C0'', ''C1'', ''C2'', ''C3'']"
    using t(4) [OF flaky_analyzer_symbol]
    by (simp add: all_positions_def twelve_positions_def position_named_def)
  have "length (filter is_batch
             (snd (snd (generate_portfolio_analysis flaky_analyzer five_at_a_time
                          twelve_positions 0))))
          = (length (all_positions twelve_positions) + nat (max_concurrent_analyses five_at_a_time) - 1)
              div nat (max_concurrent_analyses five_at_a_time)"
    by (rule t(5)) (simp_all add: five_at_a_time_def l)
  then show "length (filter is_batch
             (snd (snd (generate_portfolio_analysis flaky_analyzer five_at_a_time
                          twelve_positions 0)))) = 3"
    by (simp add: l five_at_a_time_def)
qed


end
